theory Spec2Isabelle
  imports Complex_Main
begin

section \<open>Conventions of the embedding\<close>

text \<open>
  The development embeds the dispatch-and-cost core of \<^verbatim>\<open>app.py\<close>: the classes
  \<^verbatim>\<open>Config\<close>, \<^verbatim>\<open>Database\<close>, \<^verbatim>\<open>CostCalculationService\<close> and \<^verbatim>\<open>ReferralService\<close>.

  \<^item> Python floats are read as exact reals, with one exception. \<^verbatim>\<open>calculate_distance\<close>
    takes \<^verbatim>\<open>math.sqrt(1-a)\<close>, which raises \<^verbatim>\<open>ValueError\<close> on a negative argument, and
    whether the computed \<^verbatim>\<open>a\<close> exceeds 1 is decided by rounding alone. The rounding error
    of \<^verbatim>\<open>a\<close> is therefore an explicit argument \<open>err\<close> of every function that computes a
    distance; \<open>exact\<close> is the error of exact arithmetic. Infinities and NaN are outside
    the model; \<^verbatim>\<open>float('inf')\<close>, the one infinity the core writes itself, is the value
    \<open>None\<close> of a \<open>real option\<close> bound.
  \<^item> A SQLAlchemy column declared without a default may hold NULL and is an \<open>option\<close>;
    a column declared with a default (\<^verbatim>\<open>fuel_level\<close>, \<^verbatim>\<open>fuel_consumption_rate\<close>, the three
    cumulative ledger columns, both \<^verbatim>\<open>status\<close> columns) is filled on every insert the ORM
    makes and is never assigned \<^verbatim>\<open>None\<close> by the program, so it has the plain type.
  \<^item> The session with its identity map is a store: each table is the list of its rows in
    query order, a row is addressed by its primary key, \<^verbatim>\<open>.filter(key == k).first()\<close>
    reads the first row with that key, and an attribute assignment on the object so
    obtained rewrites that row.
  \<^item> Free-text columns that no operation of the core reads (notes, vital signs, message
    bodies, timestamps) are left out of the records.
\<close>

section \<open>Configuration\<close>

record config =
  FUEL_PRICE_PER_LITER :: real
  AVERAGE_FUEL_CONSUMPTION :: real
  BASE_OPERATING_COST_PER_KM :: real

text \<open>The values \<^verbatim>\<open>class Config\<close> starts with; the dashboard may overwrite the fuel price at
  run time, so every cost function takes the configuration as an argument.\<close>

definition Config :: config where
  "Config = \<lparr>FUEL_PRICE_PER_LITER = 180,
             AVERAGE_FUEL_CONSUMPTION = 12 / 100,
             BASE_OPERATING_COST_PER_KM = 50\<rparr>"

section \<open>Tables\<close>

text \<open>The dictionary \<^verbatim>\<open>patient_data\<close> handed to \<^verbatim>\<open>create_referral\<close>, with the keys the
  referral form and \<^verbatim>\<open>create_referral\<close> itself write. A key that is absent is \<open>None\<close>; so
  is a key present with the value \<^verbatim>\<open>None\<close>, except \<^verbatim>\<open>patient_id\<close>, where \<open>None\<close> is the
  absent key only (the callers leave the key out or store a string).\<close>

record patient_data =
  patient_id :: "string option"
  name :: "string option"
  age :: "int option"
  condition :: "string option"
  referring_hospital :: "string option"
  receiving_hospital :: "string option"
  referring_physician :: "string option"
  status :: "string option"
  assigned_ambulance :: "string option"
  created_by :: "string option"
  referring_hospital_lat :: "real option"
  referring_hospital_lng :: "real option"
  receiving_hospital_lat :: "real option"
  receiving_hospital_lng :: "real option"
  trip_distance :: "real option"
  trip_fuel_cost :: "real option"

record patient =
  patient_id :: string
  name :: string
  age :: int
  condition :: string
  referring_hospital :: string
  receiving_hospital :: string
  referring_physician :: string
  status :: string
  assigned_ambulance :: "string option"
  created_by :: "string option"
  referring_hospital_lat :: "real option"
  referring_hospital_lng :: "real option"
  receiving_hospital_lat :: "real option"
  receiving_hospital_lng :: "real option"
  pickup_notification_sent :: bool
  trip_distance :: "real option"
  trip_fuel_cost :: "real option"
  trip_cost_savings :: real

record ambulance =
  ambulance_id :: string
  latitude :: "real option"
  longitude :: "real option"
  status :: string
  driver_name :: "string option"
  current_patient :: "string option"
  destination :: "string option"
  mission_complete :: bool
  fuel_level :: real
  fuel_consumption_rate :: real
  total_fuel_cost :: real
  total_distance_traveled :: real
  cost_savings :: real

record referral =
  patient_id :: string
  ambulance_id :: "string option"
  created_by :: string

record communication =
  patient_id :: string
  ambulance_id :: "string option"
  sender :: string
  receiver :: "string option"
  message_type :: string

record database =
  patients :: "patient list"
  ambulances :: "ambulance list"
  referrals :: "referral list"
  communications :: "communication list"

datatype error = IntegrityError | ValueError

section \<open>Python truthiness and row updates\<close>

text \<open>\<^verbatim>\<open>if x:\<close> on a float that may be \<^verbatim>\<open>None\<close>: false for \<^verbatim>\<open>None\<close> and for \<^verbatim>\<open>0.0\<close>.\<close>

definition truthy_float :: "real option \<Rightarrow> bool" where
  "truthy_float x = (case x of None \<Rightarrow> False | Some v \<Rightarrow> v \<noteq> 0)"

text \<open>\<^verbatim>\<open>if s:\<close> on a string that may be \<^verbatim>\<open>None\<close>: false for \<^verbatim>\<open>None\<close> and for the empty string.\<close>

definition truthy_str :: "string option \<Rightarrow> bool" where
  "truthy_str s = (case s of None \<Rightarrow> False | Some v \<Rightarrow> v \<noteq> [])"

text \<open>Attribute assignments on the object a \<^verbatim>\<open>.first()\<close> query returned.\<close>

fun update_first :: "('a \<Rightarrow> bool) \<Rightarrow> ('a \<Rightarrow> 'a) \<Rightarrow> 'a list \<Rightarrow> 'a list" where
  "update_first P f [] = []"
| "update_first P f (x # xs) = (if P x then f x # xs else x # update_first P f xs)"

definition get_patient_by_id :: "database \<Rightarrow> string \<Rightarrow> patient option" where
  "get_patient_by_id db pid = find (\<lambda>p. patient.patient_id p = pid) (patients db)"

definition get_ambulance_by_id :: "database \<Rightarrow> string \<Rightarrow> ambulance option" where
  "get_ambulance_by_id db aid = find (\<lambda>a. ambulance.ambulance_id a = aid) (ambulances db)"

definition set_patient :: "string \<Rightarrow> (patient \<Rightarrow> patient) \<Rightarrow> database \<Rightarrow> database" where
  "set_patient pid f db =
     db\<lparr>patients := update_first (\<lambda>p. patient.patient_id p = pid) f (patients db)\<rparr>"

definition set_ambulance :: "string \<Rightarrow> (ambulance \<Rightarrow> ambulance) \<Rightarrow> database \<Rightarrow> database" where
  "set_ambulance aid f db =
     db\<lparr>ambulances := update_first (\<lambda>a. ambulance.ambulance_id a = aid) f (ambulances db)\<rparr>"

definition add_referral :: "database \<Rightarrow> referral \<Rightarrow> database" where
  "add_referral db r = db\<lparr>referrals := referrals db @ [r]\<rparr>"

definition add_communication :: "database \<Rightarrow> communication \<Rightarrow> database" where
  "add_communication db c = db\<lparr>communications := communications db @ [c]\<rparr>"

section \<open>class Database\<close>

definition get_available_ambulances :: "database \<Rightarrow> ambulance list" where
  "get_available_ambulances db =
     filter (\<lambda>a. ambulance.status a = ''Available'') (ambulances db)"

definition update_ambulance_status ::
  "database \<Rightarrow> string \<Rightarrow> string \<Rightarrow> string option \<Rightarrow> database" where
  "update_ambulance_status db aid st pid =
     (case get_ambulance_by_id db aid of
        None \<Rightarrow> db
      | Some a \<Rightarrow>
          set_ambulance aid
            (\<lambda>a. if truthy_str pid
                  then a\<lparr>ambulance.status := st, current_patient := pid\<rparr>
                  else a\<lparr>ambulance.status := st\<rparr>) db)"

text \<open>\<^verbatim>\<open>math.radians\<close> and \<^verbatim>\<open>math.atan2\<close> on reals.\<close>

definition radians :: "real \<Rightarrow> real" where
  "radians x = x * pi / 180"

definition atan2 :: "real \<Rightarrow> real \<Rightarrow> real" where
  "atan2 y x =
     (if 0 < x then arctan (y / x)
      else if x < 0 then (if 0 \<le> y then arctan (y / x) + pi else arctan (y / x) - pi)
      else if 0 < y then pi / 2
      else if y < 0 then - (pi / 2)
      else 0)"

text \<open>\<^verbatim>\<open>math.sqrt\<close> raises \<^verbatim>\<open>ValueError\<close> (math domain error) on a negative argument.\<close>

definition py_sqrt :: "real \<Rightarrow> error + real" where
  "py_sqrt x = (if x < 0 then Inl ValueError else Inr (sqrt x))"

text \<open>The rounding error of the double-precision evaluation of \<^verbatim>\<open>a\<close>, as a function of
  the four arguments of \<^verbatim>\<open>calculate_distance\<close>.\<close>

type_synonym rounding = "real \<Rightarrow> real \<Rightarrow> real \<Rightarrow> real \<Rightarrow> real"

definition exact :: rounding where
  "exact = (\<lambda>lat1 lon1 lat2 lon2. 0)"

definition calculate_distance ::
  "rounding \<Rightarrow> real \<Rightarrow> real \<Rightarrow> real \<Rightarrow> real \<Rightarrow> error + real" where
  "calculate_distance err lat1 lon1 lat2 lon2 =
     (let R = 6371;
          dlat = radians (lat2 - lat1);
          dlon = radians (lon2 - lon1);
          a = sin (dlat / 2) * sin (dlat / 2) +
              cos (radians lat1) * cos (radians lat2) *
              sin (dlon / 2) * sin (dlon / 2) + err lat1 lon1 lat2 lon2
      in case py_sqrt a of
           Inl e \<Rightarrow> Inl e
         | Inr root_a \<Rightarrow>
             (case py_sqrt (1 - a) of
                Inl e \<Rightarrow> Inl e
              | Inr root_1a \<Rightarrow> Inr (R * (2 * atan2 root_a root_1a))))"

text \<open>\<^verbatim>\<open>distance < min_distance\<close>, where \<^verbatim>\<open>min_distance\<close> starts as \<^verbatim>\<open>float('inf')\<close>.\<close>

definition below_bound :: "real \<Rightarrow> real option \<Rightarrow> bool" where
  "below_bound d m = (case m of None \<Rightarrow> True | Some x \<Rightarrow> d < x)"

text \<open>The \<^verbatim>\<open>for\<close> loop of \<^verbatim>\<open>find_nearest_ambulance\<close>; the two loop variables are
  \<^verbatim>\<open>nearest_ambulance\<close> and \<^verbatim>\<open>min_distance\<close>. Nothing catches the \<^verbatim>\<open>ValueError\<close> of
  \<^verbatim>\<open>calculate_distance\<close>: it ends the loop and the call.\<close>

fun nearest_loop ::
  "rounding \<Rightarrow> real \<Rightarrow> real \<Rightarrow> real \<Rightarrow> ambulance list \<Rightarrow> ambulance option \<Rightarrow> real option
     \<Rightarrow> error + ambulance option" where
  "nearest_loop err hospital_lat hospital_lng min_fuel_level [] nearest_ambulance min_distance =
     Inr nearest_ambulance"
| "nearest_loop err hospital_lat hospital_lng min_fuel_level (a # rest) nearest_ambulance
     min_distance =
     (if fuel_level a < min_fuel_level
      then nearest_loop err hospital_lat hospital_lng min_fuel_level rest
             nearest_ambulance min_distance
      else
        (case (latitude a, longitude a) of
           (Some la, Some lo) \<Rightarrow>
             (case calculate_distance err hospital_lat hospital_lng la lo of
                Inl e \<Rightarrow> Inl e
              | Inr distance \<Rightarrow>
                  if below_bound distance min_distance
                  then nearest_loop err hospital_lat hospital_lng min_fuel_level rest
                         (Some a) (Some distance)
                  else nearest_loop err hospital_lat hospital_lng min_fuel_level rest
                         nearest_ambulance min_distance)
         | _ \<Rightarrow>
             nearest_loop err hospital_lat hospital_lng min_fuel_level rest
               nearest_ambulance min_distance))"

definition find_nearest_ambulance ::
  "rounding \<Rightarrow> database \<Rightarrow> real \<Rightarrow> real \<Rightarrow> real \<Rightarrow> error + ambulance option" where
  "find_nearest_ambulance err db hospital_lat hospital_lng min_fuel_level =
     (let available_ambulances = get_available_ambulances db
      in if available_ambulances = [] then Inr None
         else nearest_loop err hospital_lat hospital_lng min_fuel_level
                available_ambulances None None)"

text \<open>The default of the parameter \<^verbatim>\<open>min_fuel_level\<close>.\<close>

definition default_min_fuel_level :: real where
  "default_min_fuel_level = 20"

text \<open>\<^verbatim>\<open>update_ambulance_fuel\<close> returns the new fuel level, or \<^verbatim>\<open>None\<close> when no ambulance has
  the id; its two optional arguments are \<open>distance_km\<close> and \<open>new_fuel_level\<close>.\<close>

definition update_ambulance_fuel ::
  "database \<Rightarrow> string \<Rightarrow> real option \<Rightarrow> real option \<Rightarrow> real option \<times> database" where
  "update_ambulance_fuel db aid distance_km new_fuel_level =
     (case get_ambulance_by_id db aid of
        None \<Rightarrow> (None, db)
      | Some a \<Rightarrow>
          (let lvl =
                 (case distance_km of
                    Some d \<Rightarrow> max 0 (fuel_level a - d * fuel_consumption_rate a)
                  | None \<Rightarrow>
                      (case new_fuel_level of
                         Some n \<Rightarrow> max 0 (min 100 n)
                       | None \<Rightarrow> fuel_level a))
           in (Some lvl, set_ambulance aid (\<lambda>a. a\<lparr>fuel_level := lvl\<rparr>) db)))"

section \<open>class CostCalculationService\<close>

record trip_cost =
  distance_km :: real
  fuel_used_liters :: real
  fuel_cost_ksh :: real
  operating_cost_ksh :: real
  total_cost_ksh :: real

definition calculate_trip_cost :: "config \<Rightarrow> real \<Rightarrow> real option \<Rightarrow> trip_cost" where
  "calculate_trip_cost cfg d fuel_consumption_rate_arg =
     (let rate = (case fuel_consumption_rate_arg of
                    None \<Rightarrow> AVERAGE_FUEL_CONSUMPTION cfg
                  | Some r \<Rightarrow> r);
          fuel_used = d * rate;
          fuel_cost = fuel_used * FUEL_PRICE_PER_LITER cfg;
          operating_cost = d * BASE_OPERATING_COST_PER_KM cfg;
          total_cost = fuel_cost + operating_cost
      in \<lparr>distance_km = d,
          fuel_used_liters = fuel_used,
          fuel_cost_ksh = fuel_cost,
          operating_cost_ksh = operating_cost,
          total_cost_ksh = total_cost\<rparr>)"

definition calculate_potential_savings :: "config \<Rightarrow> real \<Rightarrow> real \<Rightarrow> real" where
  "calculate_potential_savings cfg actual_distance alternative_distance =
     (let actual_cost = calculate_trip_cost cfg actual_distance None;
          alternative_cost = calculate_trip_cost cfg alternative_distance None;
          savings = total_cost_ksh alternative_cost - total_cost_ksh actual_cost
      in max 0 savings)"

definition update_ambulance_costs ::
  "config \<Rightarrow> database \<Rightarrow> string \<Rightarrow> real \<Rightarrow> trip_cost option \<times> database" where
  "update_ambulance_costs cfg db aid d =
     (case get_ambulance_by_id db aid of
        None \<Rightarrow> (None, db)
      | Some a \<Rightarrow>
          (let tc = calculate_trip_cost cfg d (Some (fuel_consumption_rate a));
               potential_savings = total_cost_ksh tc * (15 / 100)
           in (Some tc,
               set_ambulance aid
                 (\<lambda>a. a\<lparr>total_distance_traveled := total_distance_traveled a + d,
                         total_fuel_cost := total_fuel_cost a + fuel_cost_ksh tc,
                         cost_savings := cost_savings a + potential_savings\<rparr>) db)))"

section \<open>class NotificationService\<close>

text \<open>Each automatic notification appends rows to the communications table; the message
  body is free text and is not modelled.\<close>

definition send_automatic_pickup_notification_to_driver ::
  "database \<Rightarrow> patient \<Rightarrow> ambulance \<Rightarrow> database" where
  "send_automatic_pickup_notification_to_driver db p a =
     add_communication db
       \<lparr>communication.patient_id = patient.patient_id p,
        communication.ambulance_id = Some (ambulance.ambulance_id a),
        sender = ''System'',
        receiver = driver_name a,
        message_type = ''auto_driver_assignment''\<rparr>"

definition send_automatic_referral_notification_to_hospital ::
  "database \<Rightarrow> patient \<Rightarrow> ambulance option \<Rightarrow> database" where
  "send_automatic_referral_notification_to_hospital db p amb =
     add_communication db
       \<lparr>communication.patient_id = patient.patient_id p,
        communication.ambulance_id = map_option ambulance.ambulance_id amb,
        sender = ''System'',
        receiver = Some (patient.receiving_hospital p),
        message_type = ''auto_hospital_notification''\<rparr>"

definition send_automatic_enroute_notification ::
  "database \<Rightarrow> patient \<Rightarrow> ambulance \<Rightarrow> database" where
  "send_automatic_enroute_notification db p a =
     add_communication db
       \<lparr>communication.patient_id = patient.patient_id p,
        communication.ambulance_id = Some (ambulance.ambulance_id a),
        sender = ''System'',
        receiver = Some (patient.receiving_hospital p),
        message_type = ''auto_enroute_notification''\<rparr>"

definition send_automatic_arrival_notification ::
  "database \<Rightarrow> patient \<Rightarrow> ambulance \<Rightarrow> database" where
  "send_automatic_arrival_notification db p a =
     fold (\<lambda>hospital db'.
             add_communication db'
               \<lparr>communication.patient_id = patient.patient_id p,
                communication.ambulance_id = Some (ambulance.ambulance_id a),
                sender = ''System'',
                receiver = Some hospital,
                message_type = ''auto_arrival_notification''\<rparr>)
          [patient.referring_hospital p, patient.receiving_hospital p] db"

section \<open>class ReferralService\<close>

text \<open>\<^verbatim>\<open>add_patient\<close>: a missing \<^verbatim>\<open>patient_id\<close> is generated as \<^verbatim>\<open>PAT\<close> followed by
  \<^verbatim>\<open>secrets.token_hex(4).upper()\<close>; the random token is the argument \<open>token\<close>. The commit
  raises \<^verbatim>\<open>IntegrityError\<close> when a column declared \<^verbatim>\<open>nullable=False\<close> has no value or the
  primary key is already in the table.\<close>

definition add_patient ::
  "database \<Rightarrow> patient_data \<Rightarrow> string \<Rightarrow> error + patient \<times> database" where
  "add_patient db pd token =
     (let pid = (case patient_data.patient_id pd of
                   None \<Rightarrow> ''PAT'' @ token
                 | Some i \<Rightarrow> i)
      in case (patient_data.name pd, patient_data.age pd, patient_data.condition pd,
               patient_data.referring_hospital pd, patient_data.receiving_hospital pd,
               patient_data.referring_physician pd) of
           (Some n, Some ag, Some c, Some rh, Some vh, Some rp) \<Rightarrow>
             if pid \<in> set (map patient.patient_id (patients db)) then Inl IntegrityError
             else
               (let p = \<lparr>patient.patient_id = pid,
                         patient.name = n,
                         patient.age = ag,
                         patient.condition = c,
                         patient.referring_hospital = rh,
                         patient.receiving_hospital = vh,
                         patient.referring_physician = rp,
                         patient.status =
                           (case patient_data.status pd of
                              None \<Rightarrow> ''Referred''
                            | Some s \<Rightarrow> s),
                         patient.assigned_ambulance = patient_data.assigned_ambulance pd,
                         patient.created_by = patient_data.created_by pd,
                         patient.referring_hospital_lat = patient_data.referring_hospital_lat pd,
                         patient.referring_hospital_lng = patient_data.referring_hospital_lng pd,
                         patient.receiving_hospital_lat = patient_data.receiving_hospital_lat pd,
                         patient.receiving_hospital_lng = patient_data.receiving_hospital_lng pd,
                         pickup_notification_sent = False,
                         patient.trip_distance = patient_data.trip_distance pd,
                         patient.trip_fuel_cost = patient_data.trip_fuel_cost pd,
                         trip_cost_savings = 0\<rparr>
                in Inr (p, db\<lparr>patients := patients db @ [p]\<rparr>))
         | _ \<Rightarrow> Inl IntegrityError)"

text \<open>The estimate \<^verbatim>\<open>create_referral\<close> writes into \<^verbatim>\<open>patient_data\<close> before the insert. The
  four coordinates are tested by truth value; a coordinate that passed the test is a
  number, which \<open>the\<close> reads.\<close>

definition estimate_trip :: "rounding \<Rightarrow> config \<Rightarrow> patient_data \<Rightarrow> error + patient_data" where
  "estimate_trip err cfg pd =
     (if truthy_float (patient_data.referring_hospital_lat pd) \<and>
         truthy_float (patient_data.referring_hospital_lng pd) \<and>
         truthy_float (patient_data.receiving_hospital_lat pd) \<and>
         truthy_float (patient_data.receiving_hospital_lng pd)
      then
        (case calculate_distance err
                (the (patient_data.referring_hospital_lat pd))
                (the (patient_data.referring_hospital_lng pd))
                (the (patient_data.receiving_hospital_lat pd))
                (the (patient_data.receiving_hospital_lng pd)) of
           Inl e \<Rightarrow> Inl e
         | Inr distance \<Rightarrow>
             (let cost_estimate = calculate_trip_cost cfg distance None
              in Inr (pd\<lparr>patient_data.trip_distance := Some distance,
                         patient_data.trip_fuel_cost := Some (total_cost_ksh cost_estimate)\<rparr>)))
      else Inr pd)"

text \<open>\<^verbatim>\<open>create_referral\<close> catches every exception and returns \<^verbatim>\<open>None\<close>; \<open>role\<close> is
  \<^verbatim>\<open>user['role']\<close>.\<close>

definition create_referral ::
  "rounding \<Rightarrow> config \<Rightarrow> database \<Rightarrow> patient_data \<Rightarrow> string \<Rightarrow> string
     \<Rightarrow> patient option \<times> database" where
  "create_referral err cfg db patient_data0 role token =
     (case estimate_trip err cfg (patient_data0\<lparr>patient_data.created_by := Some role\<rparr>) of
        Inl e \<Rightarrow> (None, db)
      | Inr pd \<Rightarrow>
          (case add_patient db pd token of
             Inl e \<Rightarrow> (None, db)
           | Inr (p, db1) \<Rightarrow>
               (let db2 = add_referral db1
                            \<lparr>referral.patient_id = patient.patient_id p,
                             referral.ambulance_id = patient_data.assigned_ambulance pd,
                             referral.created_by = role\<rparr>;
                    db3 = send_automatic_referral_notification_to_hospital db2 p None
                in (Some p, db3))))"

definition assign_ambulance :: "database \<Rightarrow> string \<Rightarrow> string \<Rightarrow> bool \<times> database" where
  "assign_ambulance db pid aid =
     (case get_patient_by_id db pid of
        None \<Rightarrow> (False, db)
      | Some p0 \<Rightarrow>
          (let upd = (\<lambda>p. p\<lparr>patient.assigned_ambulance := Some aid,
                             patient.status := ''Ambulance Assigned''\<rparr>);
               db1 = set_patient pid upd db;
               db2 = (case get_ambulance_by_id db1 aid of
                        None \<Rightarrow> db1
                      | Some a \<Rightarrow> send_automatic_pickup_notification_to_driver db1 (upd p0) a);
               db3 = update_ambulance_status db2 aid ''On Transfer'' (Some pid)
           in (True, db3)))"

text \<open>\<^verbatim>\<open>auto_assign_nearest_ambulance\<close> does not catch the \<^verbatim>\<open>ValueError\<close> of the search. The
  search comes before the first assignment to a row, so the exception leaves the store as
  it was: the first component is the exception or the returned boolean, the second the
  store.\<close>

definition auto_assign_nearest_ambulance ::
  "rounding \<Rightarrow> database \<Rightarrow> string \<Rightarrow> (error + bool) \<times> database" where
  "auto_assign_nearest_ambulance err db pid =
     (case get_patient_by_id db pid of
        None \<Rightarrow> (Inr False, db)
      | Some p0 \<Rightarrow>
          if \<not> truthy_float (patient.referring_hospital_lat p0) \<or>
             \<not> truthy_float (patient.referring_hospital_lng p0)
          then (Inr False, db)
          else
            (case find_nearest_ambulance err db
                    (the (patient.referring_hospital_lat p0))
                    (the (patient.referring_hospital_lng p0))
                    default_min_fuel_level of
               Inl e \<Rightarrow> (Inl e, db)
             | Inr None \<Rightarrow> (Inr False, db)
             | Inr (Some a0) \<Rightarrow>
                 (let updp = (\<lambda>p. p\<lparr>patient.assigned_ambulance :=
                                        Some (ambulance.ambulance_id a0),
                                      patient.status := ''Ambulance Assigned''\<rparr>);
                      upda = (\<lambda>a. a\<lparr>ambulance.status := ''On Transfer'',
                                      current_patient := Some pid,
                                      destination := Some (patient.receiving_hospital p0)\<rparr>);
                      db1 = set_patient pid updp db;
                      db2 = set_ambulance (ambulance.ambulance_id a0) upda db1;
                      db3 = send_automatic_pickup_notification_to_driver db2 (updp p0) (upda a0)
                  in (Inr True, db3))))"

definition mark_patient_picked_up :: "database \<Rightarrow> string \<Rightarrow> bool \<times> database" where
  "mark_patient_picked_up db pid =
     (case get_patient_by_id db pid of
        None \<Rightarrow> (False, db)
      | Some p0 \<Rightarrow>
          (case (case patient.assigned_ambulance p0 of
                   None \<Rightarrow> None
                 | Some aid \<Rightarrow> get_ambulance_by_id db aid) of
             None \<Rightarrow> (False, db)
           | Some a \<Rightarrow>
               (let upd = (\<lambda>p. p\<lparr>patient.status := ''Patient Picked Up'',
                                  pickup_notification_sent := True\<rparr>);
                    db1 = set_patient pid upd db;
                    db2 = send_automatic_enroute_notification db1 (upd p0) a
                in (True, db2))))"

text \<open>\<^verbatim>\<open>complete_mission(ambulance, patient)\<close> receives the two ORM objects. Here it
  receives their primary keys and reads the objects from the store; keys that resolve
  to no row stand for no call of the source and give \<open>None\<close>.\<close>

definition complete_mission ::
  "config \<Rightarrow> database \<Rightarrow> string \<Rightarrow> string \<Rightarrow> database option" where
  "complete_mission cfg db aid pid =
     (case (get_ambulance_by_id db aid, get_patient_by_id db pid) of
        (Some a0, Some p0) \<Rightarrow>
          (let upda = (\<lambda>a. a\<lparr>ambulance.status := ''Available'',
                               current_patient := None,
                               mission_complete := True\<rparr>);
               updp = (\<lambda>p. p\<lparr>patient.status := ''Arrived at Destination''\<rparr>);
               db1 = set_patient pid updp (set_ambulance aid upda db);
               db2 =
                 (if truthy_float (patient.trip_distance p0)
                  then
                    (case update_ambulance_costs cfg db1 aid (the (patient.trip_distance p0)) of
                       (None, db') \<Rightarrow> db'
                     | (Some tc, db') \<Rightarrow>
                         set_patient pid
                           (\<lambda>p. p\<lparr>patient.trip_fuel_cost := Some (total_cost_ksh tc),
                                   trip_cost_savings := total_cost_ksh tc * (15 / 100)\<rparr>) db')
                  else db1)
           in case (get_ambulance_by_id db2 aid, get_patient_by_id db2 pid) of
                (Some a2, Some p2) \<Rightarrow> Some (send_automatic_arrival_notification db2 p2 a2)
              | _ \<Rightarrow> None)
      | _ \<Rightarrow> None)"

section \<open>Notions of the specification\<close>

text \<open>An eligible ambulance, in the words of the specification: available, with fuel at
  or above the floor, with known coordinates.\<close>

definition eligible :: "real \<Rightarrow> ambulance \<Rightarrow> bool" where
  "eligible min_fuel_level a =
     (ambulance.status a = ''Available'' \<and> min_fuel_level \<le> fuel_level a \<and>
      latitude a \<noteq> None \<and> longitude a \<noteq> None)"

text \<open>The haversine of the central angle between two points, in exact arithmetic: the
  quantity \<^verbatim>\<open>a\<close> of \<^verbatim>\<open>calculate_distance\<close> without its rounding error.\<close>

definition haversine_a :: "real \<Rightarrow> real \<Rightarrow> real \<Rightarrow> real \<Rightarrow> real" where
  "haversine_a lat1 lon1 lat2 lon2 =
     sin (radians (lat2 - lat1) / 2) * sin (radians (lat2 - lat1) / 2) +
     cos (radians lat1) * cos (radians lat2) *
     sin (radians (lon2 - lon1) / 2) * sin (radians (lon2 - lon1) / 2)"

text \<open>The haversine great-circle distance of the specification, in kilometres on a sphere
  of radius 6371 km, by the inverse-sine form of the haversine formula. It is written
  from the specification, not from the code, to compare \<^verbatim>\<open>calculate_distance\<close> with.\<close>

definition haversine_km :: "real \<Rightarrow> real \<Rightarrow> real \<Rightarrow> real \<Rightarrow> real" where
  "haversine_km lat1 lon1 lat2 lon2 =
     2 * 6371 * arcsin (sqrt (haversine_a lat1 lon1 lat2 lon2))"

text \<open>The haversine distance from the hospital to an ambulance with coordinates.\<close>

definition distance_to :: "real \<Rightarrow> real \<Rightarrow> ambulance \<Rightarrow> real" where
  "distance_to hospital_lat hospital_lng a =
     (case (latitude a, longitude a) of
        (Some la, Some lo) \<Rightarrow> haversine_km hospital_lat hospital_lng la lo
      | _ \<Rightarrow> 0)"

text \<open>Whether \<^verbatim>\<open>calculate_distance\<close> returns for an ambulance, and the value it returns.\<close>

definition computes :: "rounding \<Rightarrow> real \<Rightarrow> real \<Rightarrow> ambulance \<Rightarrow> bool" where
  "computes err hospital_lat hospital_lng a =
     (case (latitude a, longitude a) of
        (Some la, Some lo) \<Rightarrow>
          (case calculate_distance err hospital_lat hospital_lng la lo of
             Inl e \<Rightarrow> False
           | Inr d \<Rightarrow> True)
      | _ \<Rightarrow> True)"

definition computed_distance :: "rounding \<Rightarrow> real \<Rightarrow> real \<Rightarrow> ambulance \<Rightarrow> real" where
  "computed_distance err hospital_lat hospital_lng a =
     (case (latitude a, longitude a) of
        (Some la, Some lo) \<Rightarrow>
          (case calculate_distance err hospital_lat hospital_lng la lo of
             Inl e \<Rightarrow> 0
           | Inr d \<Rightarrow> d)
      | _ \<Rightarrow> 0)"

text \<open>The two tests the loop itself makes on a row of the available list.\<close>

definition fit :: "real \<Rightarrow> ambulance \<Rightarrow> bool" where
  "fit m a = (m \<le> fuel_level a \<and> latitude a \<noteq> None \<and> longitude a \<noteq> None)"

section \<open>A small fleet\<close>

text \<open>Rows in the shape of \<^verbatim>\<open>initialize_sample_data\<close>, used to run the operations on
  concrete inputs.\<close>

definition amb_low :: ambulance where
  "amb_low = \<lparr>ambulance.ambulance_id = ''KBA 001A'', latitude = Some (-754 / 10000),
     longitude = Some (347695 / 10000), ambulance.status = ''Available'',
     driver_name = Some ''John Omondi'', current_patient = None, destination = None,
     mission_complete = False, fuel_level = 15, fuel_consumption_rate = 12 / 100,
     total_fuel_cost = 5000, total_distance_traveled = 100, cost_savings = 1000\<rparr>"

definition amb_near :: ambulance where
  "amb_near = \<lparr>ambulance.ambulance_id = ''KBB 002B'', latitude = Some (-754 / 10000),
     longitude = Some (347695 / 10000), ambulance.status = ''Available'',
     driver_name = Some ''Mary Achieng'', current_patient = None, destination = None,
     mission_complete = False, fuel_level = 80, fuel_consumption_rate = 12 / 100,
     total_fuel_cost = 6000, total_distance_traveled = 200, cost_savings = 1500\<rparr>"

definition amb_tie :: ambulance where
  "amb_tie = \<lparr>ambulance.ambulance_id = ''KBC 003C'', latitude = Some (-754 / 10000),
     longitude = Some (347695 / 10000), ambulance.status = ''Available'',
     driver_name = Some ''Paul Otieno'', current_patient = None, destination = None,
     mission_complete = False, fuel_level = 90, fuel_consumption_rate = 12 / 100,
     total_fuel_cost = 7000, total_distance_traveled = 300, cost_savings = 2000\<rparr>"

definition amb_lost :: ambulance where
  "amb_lost = \<lparr>ambulance.ambulance_id = ''KBD 004D'', latitude = None,
     longitude = None, ambulance.status = ''Available'',
     driver_name = Some ''Grace Atieno'', current_patient = None, destination = None,
     mission_complete = False, fuel_level = 95, fuel_consumption_rate = 12 / 100,
     total_fuel_cost = 8000, total_distance_traveled = 400, cost_savings = 2500\<rparr>"

definition amb_busy :: ambulance where
  "amb_busy = \<lparr>ambulance.ambulance_id = ''KBE 005E'', latitude = Some (-754 / 10000),
     longitude = Some (347695 / 10000), ambulance.status = ''On Transfer'',
     driver_name = Some ''James Odhiambo'', current_patient = Some ''PAT1A2B3C4D'',
     destination = Some ''JOOTRH'',
     mission_complete = False, fuel_level = 70, fuel_consumption_rate = 12 / 100,
     total_fuel_cost = 9000, total_distance_traveled = 500, cost_savings = 3000\<rparr>"

definition pat_moving :: patient where
  "pat_moving = \<lparr>patient.patient_id = ''PAT1A2B3C4D'', name = ''Jane Doe'', age = 30,
     condition = ''Fracture'', referring_hospital = ''Kisumu County Referral Hospital'',
     receiving_hospital = ''JOOTRH'', referring_physician = ''Dr. Were'',
     patient.status = ''Ambulance Dispatched'', assigned_ambulance = Some ''KBE 005E'',
     patient.created_by = Some ''Hospital Staff'',
     referring_hospital_lat = Some (-1058 / 10000),
     referring_hospital_lng = Some (347568 / 10000),
     receiving_hospital_lat = Some (-916 / 10000),
     receiving_hospital_lng = Some (34768 / 1000),
     pickup_notification_sent = False, trip_distance = Some 4,
     trip_fuel_cost = Some (2864 / 10), trip_cost_savings = 0\<rparr>"

definition pat_waiting :: patient where
  "pat_waiting = \<lparr>patient.patient_id = ''PAT5E6F7A8B'', name = ''John Roe'', age = 41,
     condition = ''Malaria'', referring_hospital = ''Kisumu County Referral Hospital'',
     receiving_hospital = ''JOOTRH'', referring_physician = ''Dr. Were'',
     patient.status = ''Referred'', assigned_ambulance = None,
     patient.created_by = Some ''Hospital Staff'',
     referring_hospital_lat = Some (-1058 / 10000),
     referring_hospital_lng = Some (347568 / 10000),
     receiving_hospital_lat = Some (-916 / 10000),
     receiving_hospital_lng = Some (34768 / 1000),
     pickup_notification_sent = False, trip_distance = None,
     trip_fuel_cost = None, trip_cost_savings = 0\<rparr>"

definition fleet_db :: database where
  "fleet_db = \<lparr>patients = [pat_moving, pat_waiting],
     ambulances = [amb_low, amb_near, amb_tie, amb_lost, amb_busy],
     referrals = [], communications = []\<rparr>"

definition empty_db :: database where
  "empty_db = \<lparr>patients = [], ambulances = [], referrals = [], communications = []\<rparr>"

text \<open>A fleet on the equator, east of a hospital at \<open>(0, 34.8)\<close>: one ambulance a degree
  away, one at the hospital but short of fuel, and two a tenth of a degree away.\<close>

definition amb_degree :: ambulance where
  "amb_degree = \<lparr>ambulance.ambulance_id = ''KBG 007G'', latitude = Some 0,
     longitude = Some (358 / 10), ambulance.status = ''Available'',
     driver_name = Some ''Susan Akinyi'', current_patient = None, destination = None,
     mission_complete = False, fuel_level = 60, fuel_consumption_rate = 12 / 100,
     total_fuel_cost = 0, total_distance_traveled = 0, cost_savings = 0\<rparr>"

definition amb_dry :: ambulance where
  "amb_dry = \<lparr>ambulance.ambulance_id = ''KBH 008H'', latitude = Some 0,
     longitude = Some (348 / 10), ambulance.status = ''Available'',
     driver_name = Some ''David Owino'', current_patient = None, destination = None,
     mission_complete = False, fuel_level = 19, fuel_consumption_rate = 12 / 100,
     total_fuel_cost = 0, total_distance_traveled = 0, cost_savings = 0\<rparr>"

definition amb_tenth :: ambulance where
  "amb_tenth = \<lparr>ambulance.ambulance_id = ''KBJ 009J'', latitude = Some 0,
     longitude = Some (349 / 10), ambulance.status = ''Available'',
     driver_name = Some ''James Okoth'', current_patient = None, destination = None,
     mission_complete = False, fuel_level = 20, fuel_consumption_rate = 12 / 100,
     total_fuel_cost = 0, total_distance_traveled = 0, cost_savings = 0\<rparr>"

definition amb_tenth_too :: ambulance where
  "amb_tenth_too = \<lparr>ambulance.ambulance_id = ''KBK 010K'', latitude = Some 0,
     longitude = Some (349 / 10), ambulance.status = ''Available'',
     driver_name = Some ''Grace Atieno'', current_patient = None, destination = None,
     mission_complete = False, fuel_level = 100, fuel_consumption_rate = 12 / 100,
     total_fuel_cost = 0, total_distance_traveled = 0, cost_savings = 0\<rparr>"

definition equator_db :: database where
  "equator_db = \<lparr>patients = [],
     ambulances = [amb_degree, amb_dry, amb_tenth, amb_tenth_too],
     referrals = [], communications = []\<rparr>"

text \<open>An available ambulance whose stored position, as a driver can enter it in the
  location form, is the antipode of the hospital at \<open>(-0.2014, 34.8289)\<close>.\<close>

definition amb_antipode :: ambulance where
  "amb_antipode = \<lparr>ambulance.ambulance_id = ''KBL 011L'', latitude = Some (2014 / 10000),
     longitude = Some (- 1451711 / 10000), ambulance.status = ''Available'',
     driver_name = Some ''Peter Onyango'', current_patient = None, destination = None,
     mission_complete = False, fuel_level = 100, fuel_consumption_rate = 12 / 100,
     total_fuel_cost = 0, total_distance_traveled = 0, cost_savings = 0\<rparr>"

definition antipode_db :: database where
  "antipode_db = \<lparr>patients = [], ambulances = [amb_antipode],
     referrals = [], communications = []\<rparr>"

text \<open>The rounding error of \<^verbatim>\<open>a\<close> in IEEE double precision at that pair of points: the
  exact value is 1, the computed one \<^verbatim>\<open>1.0000000000000002\<close>, one unit in the last place
  above. Other arguments are given no error.\<close>

definition err_at_antipode :: rounding where
  "err_at_antipode =
     (\<lambda>lat1 lon1 lat2 lon2.
        if lat1 = - 2014 / 10000 \<and> lon1 = 348289 / 10000 \<and>
           lat2 = 2014 / 10000 \<and> lon2 = - 1451711 / 10000
        then 1 / 2 ^ 52 else 0)"

text \<open>Three dictionaries as the referral form builds them: both hospitals located, the
  referring hospital on the equator, and no coordinates at all.\<close>

definition pd_located :: patient_data where
  "pd_located = \<lparr>patient_data.patient_id = None, patient_data.name = Some ''Ann Poe'',
     patient_data.age = Some 27, patient_data.condition = Some ''Burns'',
     patient_data.referring_hospital = Some ''Kisumu County Referral Hospital'',
     patient_data.receiving_hospital = Some ''JOOTRH'',
     patient_data.referring_physician = Some ''Dr. Were'',
     patient_data.status = Some ''Referred'', patient_data.assigned_ambulance = None,
     patient_data.created_by = None,
     patient_data.referring_hospital_lat = Some (-1058 / 10000),
     patient_data.referring_hospital_lng = Some (347568 / 10000),
     patient_data.receiving_hospital_lat = Some (-916 / 10000),
     patient_data.receiving_hospital_lng = Some (34768 / 1000),
     patient_data.trip_distance = None, patient_data.trip_fuel_cost = None\<rparr>"

definition pd_equator :: patient_data where
  "pd_equator = pd_located\<lparr>patient_data.referring_hospital := Some ''Maseno Mission Hospital'',
     patient_data.referring_hospital_lat := Some 0,
     patient_data.referring_hospital_lng := Some (346 / 10)\<rparr>"

definition pd_unlocated :: patient_data where
  "pd_unlocated = pd_located\<lparr>patient_data.referring_hospital_lat := None,
     patient_data.referring_hospital_lng := None,
     patient_data.receiving_hospital_lat := None,
     patient_data.receiving_hospital_lng := None\<rparr>"

section \<open>Referral input\<close>

text \<open>The columns of \<^verbatim>\<open>Patient\<close> declared \<^verbatim>\<open>nullable=False\<close>, which the referral form marks
  as required, all carry a value.\<close>

definition required_fields_present :: "patient_data \<Rightarrow> bool" where
  "required_fields_present pd =
     (patient_data.name pd \<noteq> None \<and> patient_data.age pd \<noteq> None \<and>
      patient_data.condition pd \<noteq> None \<and> patient_data.referring_hospital pd \<noteq> None \<and>
      patient_data.receiving_hospital pd \<noteq> None \<and> patient_data.referring_physician pd \<noteq> None)"

text \<open>The primary key \<^verbatim>\<open>add_patient\<close> stores the row under.\<close>

definition new_patient_id :: "patient_data \<Rightarrow> string \<Rightarrow> string" where
  "new_patient_id pd token =
     (case patient_data.patient_id pd of None \<Rightarrow> ''PAT'' @ token | Some i \<Rightarrow> i)"

section \<open>The assignment invariant\<close>

text \<open>The invariant of the data model on one ambulance row, \<^verbatim>\<open>current_patient\<close> is set
  exactly when \<^verbatim>\<open>status\<close> is \<^verbatim>\<open>On Transfer\<close>, and on the whole table.\<close>

definition assignment_consistent :: "ambulance \<Rightarrow> bool" where
  "assignment_consistent a =
     ((current_patient a \<noteq> None) = (ambulance.status a = ''On Transfer''))"

definition fleet_consistent :: "database \<Rightarrow> bool" where
  "fleet_consistent db = list_all assignment_consistent (ambulances db)"

text \<open>No patient row is stored under the empty string: \<^verbatim>\<open>add_patient\<close> generates the id as
  \<^verbatim>\<open>PAT\<close> followed by eight hexadecimal digits, and its one caller passes no id of its
  own.\<close>

definition patient_ids_set :: "database \<Rightarrow> bool" where
  "patient_ids_set db = list_all (\<lambda>p. patient.patient_id p \<noteq> []) (patients db)"

section \<open>Claims on the cost model\<close>

text \<open>
  C4. For every distance \<open>d\<close> and consumption rate \<open>r\<close>, \<^verbatim>\<open>calculate_trip_cost\<close> returns
  fuel used \<open>d * r\<close>, fuel cost equal to fuel used times the configured fuel price,
  operating cost equal to \<open>d\<close> times the configured operating cost per km, and total cost
  equal to the sum of fuel cost and operating cost; when the rate is \<^verbatim>\<open>None\<close> the
  configured fleet-average consumption takes the place of \<open>r\<close>.
\<close>

theorem calculate_trip_cost_components:
  "fuel_used_liters (calculate_trip_cost cfg d (Some r)) = d * r
   \<and> fuel_used_liters (calculate_trip_cost cfg d None) = d * AVERAGE_FUEL_CONSUMPTION cfg
   \<and> fuel_cost_ksh (calculate_trip_cost cfg d rate)
       = fuel_used_liters (calculate_trip_cost cfg d rate) * FUEL_PRICE_PER_LITER cfg
   \<and> operating_cost_ksh (calculate_trip_cost cfg d rate) = d * BASE_OPERATING_COST_PER_KM cfg
   \<and> total_cost_ksh (calculate_trip_cost cfg d rate)
       = fuel_cost_ksh (calculate_trip_cost cfg d rate)
         + operating_cost_ksh (calculate_trip_cost cfg d rate)"
  by (simp add: calculate_trip_cost_def Let_def)

text \<open>
  C9. For all distances \<open>a\<close> and \<open>b\<close>, \<^verbatim>\<open>calculate_potential_savings a b\<close> is the larger of
  0 and the total cost of \<open>b\<close> minus the total cost of \<open>a\<close>, both priced at the
  fleet-average consumption rate; it is 0 when the two distances are equal and it is
  never negative.
\<close>

theorem calculate_potential_savings_spec:
  "calculate_potential_savings cfg a b
     = max 0 (total_cost_ksh (calculate_trip_cost cfg b None)
              - total_cost_ksh (calculate_trip_cost cfg a None))
   \<and> calculate_potential_savings cfg x x = 0
   \<and> 0 \<le> calculate_potential_savings cfg a b"
  by (simp add: calculate_potential_savings_def Let_def)

text \<open>The scenario of the specification: 3.6 km at 0.12 l/km, fuel at 180 KSh per litre and
  50 KSh per km of operating cost.\<close>

lemma calculate_trip_cost_scenario:
  "calculate_trip_cost Config (36 / 10) (Some (12 / 100)) =
     \<lparr>distance_km = 36 / 10, fuel_used_liters = 432 / 1000, fuel_cost_ksh = 7776 / 100,
      operating_cost_ksh = 180, total_cost_ksh = 25776 / 100\<rparr>"
  by (simp add: calculate_trip_cost_def Config_def Let_def)

section \<open>The great-circle distance\<close>

text \<open>In exact arithmetic \<^verbatim>\<open>a\<close> lies in \<open>[0, 1]\<close> for all coordinates, so neither square
  root of \<^verbatim>\<open>calculate_distance\<close> raises, and the value returned is the haversine distance
  of the specification: never negative, symmetric, zero between a point and itself.
  With a rounding error that lifts \<^verbatim>\<open>a\<close> above 1, \<^verbatim>\<open>math.sqrt(1-a)\<close> raises
  \<^verbatim>\<open>ValueError\<close>; the exact \<^verbatim>\<open>a\<close> is 1 between antipodes.\<close>

lemma haversine_mix:
  fixes t s c :: real
  assumes "0 \<le> t" "t \<le> 1" "0 \<le> s" "s \<le> 1" "-1 \<le> c" "c \<le> 1"
  shows "0 \<le> t * (1 - s) + s * ((1 + c) / 2)" and "t * (1 - s) + s * ((1 + c) / 2) \<le> 1"
proof -
  have a: "0 \<le> t * (1 - s)" using assms by simp
  have b: "0 \<le> s * ((1 + c) / 2)" using assms by simp
  show "0 \<le> t * (1 - s) + s * ((1 + c) / 2)" using a b by linarith
  have "t * (1 - s) \<le> 1 * (1 - s)" using assms by (intro mult_right_mono) auto
  then have c: "t * (1 - s) \<le> 1 - s" by simp
  have "s * ((1 + c) / 2) \<le> s * 1" using assms by (intro mult_left_mono) auto
  then have d: "s * ((1 + c) / 2) \<le> s" by simp
  show "t * (1 - s) + s * ((1 + c) / 2) \<le> 1" using c d by linarith
qed

lemma sin_square_range: "0 \<le> sin y * sin y \<and> sin y * sin y \<le> 1" for y :: real
proof -
  have e: "sin y * sin y + cos y * cos y = 1"
    using sin_cos_squared_add[of y] by (simp add: power2_eq_square)
  have c: "0 \<le> cos y * cos y" by simp
  have s: "0 \<le> sin y * sin y" by simp
  from e c have "sin y * sin y \<le> 1" by linarith
  with s show ?thesis by blast
qed

lemma haversine_a_range:
  "0 \<le> haversine_a lat1 lon1 lat2 lon2 \<and> haversine_a lat1 lon1 lat2 lon2 \<le> 1"
proof -
  define u where "u = radians lat1"
  define v where "v = radians lat2"
  define x where "x = radians (lat2 - lat1) / 2"
  define t where "t = sin x * sin x"
  define s where "s = sin (radians (lon2 - lon1) / 2) * sin (radians (lon2 - lon1) / 2)"
  define c where "c = cos (u + v)"
  have vu: "v - u = 2 * x"
    by (simp add: u_def v_def x_def radians_def algebra_simps diff_divide_distrib)
  have t01: "0 \<le> t" "t \<le> 1" using sin_square_range[of x] by (simp_all add: t_def)
  have s01: "0 \<le> s" "s \<le> 1"
    using sin_square_range[of "radians (lon2 - lon1) / 2"] by (simp_all add: s_def)
  have c11: "-1 \<le> c" "c \<le> 1" by (simp_all add: c_def)
  have "cos (v - u) = 1 - 2 * t"
    unfolding vu t_def using cos_double_sin[of x] by (simp add: power2_eq_square)
  moreover have "cos (v - u) + cos (u + v) = 2 * (cos u * cos v)"
    by (simp add: cos_add cos_diff)
  ultimately have p: "cos u * cos v = (1 - 2 * t + c) / 2" by (simp add: c_def)
  have "haversine_a lat1 lon1 lat2 lon2 = t + (cos u * cos v) * s"
    by (simp add: haversine_a_def t_def s_def u_def v_def x_def mult.assoc)
  also have "\<dots> = t * (1 - s) + s * ((1 + c) / 2)"
    unfolding p by (simp add: algebra_simps add_divide_distrib diff_divide_distrib)
  finally show ?thesis using haversine_mix[OF t01 s01 c11] by simp
qed

lemma atan2_arcsin:
  assumes "0 \<le> a" and "a \<le> 1"
  shows "atan2 (sqrt a) (sqrt (1 - a)) = arcsin (sqrt a)"
proof (cases "a = 1")
  case True
  then show ?thesis by (simp add: atan2_def)
next
  case False
  define s where "s = sqrt a"
  define c where "c = sqrt (1 - a)"
  have c0: "0 < c" using assms False by (simp add: c_def)
  have s0: "0 \<le> s" using assms by (simp add: s_def)
  have sq: "s * s + c * c = 1" using assms by (simp add: s_def c_def)
  define th where "th = arctan (s / c)"
  have r: "1 + (s / c)\<^sup>2 = 1 / (c * c)"
    using c0 sq by (simp add: power2_eq_square field_simps)
  have "sqrt (1 + (s / c)\<^sup>2) = 1 / c"
    unfolding r using c0 by (simp add: real_sqrt_divide real_sqrt_mult)
  then have "sin th = s"
    unfolding th_def sin_arctan using c0 by simp
  moreover have "- (pi / 2) \<le> th" "th \<le> pi / 2"
    using arctan_lbound[of "s / c"] arctan_ubound[of "s / c"] by (simp_all add: th_def)
  ultimately have "arcsin s = th" using arcsin_sin[of th] by simp
  then show ?thesis using c0 by (simp add: atan2_def s_def c_def th_def)
qed

lemma calculate_distance_a:
  "calculate_distance err lat1 lon1 lat2 lon2 =
     (let a = haversine_a lat1 lon1 lat2 lon2 + err lat1 lon1 lat2 lon2
      in if a < 0 \<or> 1 < a then Inl ValueError
         else Inr (6371 * (2 * atan2 (sqrt a) (sqrt (1 - a)))))"
  by (simp add: calculate_distance_def haversine_a_def py_sqrt_def Let_def)

lemma calculate_distance_exact:
  "calculate_distance exact lat1 lon1 lat2 lon2 = Inr (haversine_km lat1 lon1 lat2 lon2)"
  using haversine_a_range[of lat1 lon1 lat2 lon2]
  by (simp add: calculate_distance_a exact_def haversine_km_def atan2_arcsin Let_def)

lemma calculate_distance_error:
  "calculate_distance err lat1 lon1 lat2 lon2 = Inl e \<Longrightarrow> e = ValueError"
  by (auto simp: calculate_distance_a Let_def split: if_splits)

lemma calculate_distance_raises:
  "1 < haversine_a lat1 lon1 lat2 lon2 + err lat1 lon1 lat2 lon2 \<Longrightarrow>
   calculate_distance err lat1 lon1 lat2 lon2 = Inl ValueError"
  by (simp add: calculate_distance_a Let_def)

lemma haversine_km_nonneg: "0 \<le> haversine_km lat1 lon1 lat2 lon2"
proof -
  have "0 \<le> sqrt (haversine_a lat1 lon1 lat2 lon2)" "sqrt (haversine_a lat1 lon1 lat2 lon2) \<le> 1"
    using haversine_a_range[of lat1 lon1 lat2 lon2] by simp_all
  then have "0 \<le> arcsin (sqrt (haversine_a lat1 lon1 lat2 lon2))"
    by (intro arcsin_nonneg) simp
  then show ?thesis by (simp add: haversine_km_def)
qed

lemma haversine_km_same: "haversine_km lat lon lat lon = 0"
  by (simp add: haversine_km_def haversine_a_def radians_def)

lemma haversine_a_sym:
  "haversine_a lat1 lon1 lat2 lon2 = haversine_a lat2 lon2 lat1 lon1"
proof -
  have sq: "sin (radians (a - b) / 2) * sin (radians (a - b) / 2)
          = sin (radians (b - a) / 2) * sin (radians (b - a) / 2)" for a b :: real
  proof -
    have "radians (a - b) / 2 = - (radians (b - a) / 2)" by (simp add: radians_def field_simps)
    then have "sin (radians (a - b) / 2) = - sin (radians (b - a) / 2)" by (simp only: sin_minus)
    then show ?thesis by simp
  qed
  show ?thesis
    unfolding haversine_a_def sq[of lat2 lat1] mult.assoc sq[of lon2 lon1]
    by (simp only: mult.commute mult.left_commute)
qed

lemma haversine_km_sym:
  "haversine_km lat1 lon1 lat2 lon2 = haversine_km lat2 lon2 lat1 lon1"
  by (simp only: haversine_km_def haversine_a_sym[of lat1 lon1 lat2 lon2])

lemma haversine_km_equator:
  assumes "0 \<le> lon2 - lon1" and "lon2 - lon1 \<le> 180"
  shows "haversine_km 0 lon1 0 lon2 = 6371 * radians (lon2 - lon1)"
proof -
  define x where "x = radians (lon2 - lon1) / 2"
  have x0: "0 \<le> x" using assms(1) by (simp add: x_def radians_def)
  have "radians (lon2 - lon1) \<le> pi" using assms(2) by (simp add: radians_def)
  then have x1: "x \<le> pi / 2" by (simp add: x_def)
  have s0: "0 \<le> sin x" using x0 x1 by (intro sin_ge_zero) auto
  have "haversine_a 0 lon1 0 lon2 = sin x * sin x"
    by (simp add: haversine_a_def x_def radians_def)
  then have "sqrt (haversine_a 0 lon1 0 lon2) = sin x" using s0 by simp
  moreover have "arcsin (sin x) = x" using x0 x1 by (intro arcsin_sin) auto
  ultimately show ?thesis by (simp add: haversine_km_def x_def)
qed

lemma haversine_a_antipode:
  assumes "lat2 = - lat1" and "lon2 - lon1 = - 180"
  shows "haversine_a lat1 lon1 lat2 lon2 = 1"
proof -
  have a: "radians (lat2 - lat1) / 2 = - radians lat1"
    using assms(1) by (simp add: radians_def)
  have b: "radians lat2 = - radians lat1" using assms(1) by (simp add: radians_def)
  have c: "radians (lon2 - lon1) / 2 = - (pi / 2)" using assms(2) by (simp add: radians_def)
  have "haversine_a lat1 lon1 lat2 lon2
          = sin (radians lat1) * sin (radians lat1) + cos (radians lat1) * cos (radians lat1)"
    unfolding haversine_a_def a b c by simp
  then show ?thesis using sin_cos_squared_add[of "radians lat1"] by (simp add: power2_eq_square)
qed

section \<open>Claims on dispatch\<close>

text \<open>What the search does for every rounding error. If the distance to some eligible
  ambulance raises, the search raises \<^verbatim>\<open>ValueError\<close>
  (\<open>find_nearest_ambulance_raises\<close>). If it raises for none, the search returns \<^verbatim>\<open>None\<close>
  when no ambulance is eligible, and otherwise the first eligible ambulance of
  minimal computed distance: every eligible one before it is strictly farther, every
  one after it at least as far (\<open>find_nearest_ambulance_returns\<close>). In exact arithmetic
  nothing raises and the computed distance is the haversine distance
  (\<open>find_nearest_ambulance_exact\<close>).\<close>

lemma below_bound_trans: "x < y \<Longrightarrow> below_bound y b \<Longrightarrow> below_bound x b"
  by (auto simp: below_bound_def split: option.splits)

lemma below_bound_split: "below_bound x b \<Longrightarrow> \<not> below_bound y b \<Longrightarrow> x < y"
  by (auto simp: below_bound_def split: option.splits)

lemma nearest_loop_unfit:
  "\<not> fit m a \<Longrightarrow>
   nearest_loop err la lo m (a # rest) best bound = nearest_loop err la lo m rest best bound"
  by (auto simp: fit_def split: option.splits)

lemma nearest_loop_fit:
  "fit m a \<Longrightarrow> computes err la lo a \<Longrightarrow>
   nearest_loop err la lo m (a # rest) best bound =
     (if below_bound (computed_distance err la lo a) bound
      then nearest_loop err la lo m rest (Some a) (Some (computed_distance err la lo a))
      else nearest_loop err la lo m rest best bound)"
  by (auto simp: fit_def computes_def computed_distance_def split: option.splits sum.splits)

lemma nearest_loop_fit_raises:
  "fit m a \<Longrightarrow> \<not> computes err la lo a \<Longrightarrow>
   nearest_loop err la lo m (a # rest) best bound = Inl ValueError"
  by (auto simp: fit_def computes_def split: option.splits sum.splits
        dest: calculate_distance_error)

lemma nearest_loop_raises:
  "list_ex (\<lambda>b. \<not> computes err la lo b) (filter (fit m) xs) \<Longrightarrow>
   nearest_loop err la lo m xs best bound = Inl ValueError"
proof (induction xs arbitrary: best bound)
  case Nil
  then show ?case by simp
next
  case (Cons a rest)
  show ?case
  proof (cases "fit m a")
    case False
    then show ?thesis using Cons by (simp add: nearest_loop_unfit del: nearest_loop.simps)
  next
    case fit: True
    show ?thesis
    proof (cases "computes err la lo a")
      case False
      then show ?thesis using fit by (rule nearest_loop_fit_raises[rotated])
    next
      case True
      then have "list_ex (\<lambda>b. \<not> computes err la lo b) (filter (fit m) rest)"
        using Cons.prems fit by simp
      then show ?thesis
        using Cons.IH fit True by (simp add: nearest_loop_fit del: nearest_loop.simps)
    qed
  qed
qed

lemma nearest_loop_char:
  assumes "list_all (computes err la lo) (filter (fit m) xs)"
  shows
  "(nearest_loop err la lo m xs best bound = Inr best \<and>
      (\<forall>x \<in> set (filter (fit m) xs). \<not> below_bound (computed_distance err la lo x) bound)) \<or>
   (\<exists>a pre post. nearest_loop err la lo m xs best bound = Inr (Some a) \<and>
      filter (fit m) xs = pre @ a # post \<and>
      below_bound (computed_distance err la lo a) bound \<and>
      (\<forall>b \<in> set pre. computed_distance err la lo a < computed_distance err la lo b) \<and>
      (\<forall>b \<in> set post. computed_distance err la lo a \<le> computed_distance err la lo b))"
  using assms
proof (induction xs arbitrary: best bound)
  case Nil
  show ?case by simp
next
  case (Cons a rest)
  let ?D = "computed_distance err la lo"
  show ?case
  proof (cases "fit m a")
    case False
    have run: "nearest_loop err la lo m (a # rest) best bound = nearest_loop err la lo m rest best bound"
      using False by (rule nearest_loop_unfit)
    have flt: "filter (fit m) (a # rest) = filter (fit m) rest" using False by simp
    have ok: "list_all (computes err la lo) (filter (fit m) rest)" using Cons.prems flt by simp
    show ?thesis using Cons.IH[OF ok, of best bound] unfolding run flt .
  next
    case fit: True
    have flt: "filter (fit m) (a # rest) = a # filter (fit m) rest" using fit by simp
    have cmp: "computes err la lo a" using Cons.prems flt by simp
    have ok: "list_all (computes err la lo) (filter (fit m) rest)" using Cons.prems flt by simp
    let ?d = "?D a"
    show ?thesis
    proof (cases "below_bound ?d bound")
      case True
      have run: "nearest_loop err la lo m (a # rest) best bound
                   = nearest_loop err la lo m rest (Some a) (Some ?d)"
        using fit cmp True by (simp add: nearest_loop_fit del: nearest_loop.simps)
      from Cons.IH[OF ok, of "Some a" "Some ?d"] show ?thesis
      proof (elim disjE conjE exE)
        assume r: "nearest_loop err la lo m rest (Some a) (Some ?d) = Inr (Some a)"
          and nb: "\<forall>x\<in>set (filter (fit m) rest). \<not> below_bound (?D x) (Some ?d)"
        have "\<forall>b\<in>set (filter (fit m) rest). ?d \<le> ?D b"
          using nb by (auto simp: below_bound_def)
        then have "nearest_loop err la lo m (a # rest) best bound = Inr (Some a) \<and>
            filter (fit m) (a # rest) = [] @ a # filter (fit m) rest \<and>
            below_bound ?d bound \<and> (\<forall>b\<in>set []. ?d < ?D b) \<and>
            (\<forall>b\<in>set (filter (fit m) rest). ?d \<le> ?D b)"
          using run r flt True by simp
        then show ?thesis by blast
      next
        fix a' pre post
        assume r: "nearest_loop err la lo m rest (Some a) (Some ?d) = Inr (Some a')"
          and f: "filter (fit m) rest = pre @ a' # post"
          and bb: "below_bound (?D a') (Some ?d)"
          and p1: "\<forall>b\<in>set pre. ?D a' < ?D b"
          and p2: "\<forall>b\<in>set post. ?D a' \<le> ?D b"
        have lt: "?D a' < ?d" using bb by (simp add: below_bound_def)
        have "nearest_loop err la lo m (a # rest) best bound = Inr (Some a') \<and>
            filter (fit m) (a # rest) = (a # pre) @ a' # post \<and>
            below_bound (?D a') bound \<and>
            (\<forall>b\<in>set (a # pre). ?D a' < ?D b) \<and>
            (\<forall>b\<in>set post. ?D a' \<le> ?D b)"
          using run r flt f lt p1 p2 below_bound_trans[OF lt True] by simp
        then show ?thesis by blast
      qed
    next
      case False
      have run: "nearest_loop err la lo m (a # rest) best bound
                   = nearest_loop err la lo m rest best bound"
        using fit cmp False by (simp add: nearest_loop_fit del: nearest_loop.simps)
      from Cons.IH[OF ok, of best bound] show ?thesis
      proof (elim disjE conjE exE)
        assume r: "nearest_loop err la lo m rest best bound = Inr best"
          and nb: "\<forall>x\<in>set (filter (fit m) rest). \<not> below_bound (?D x) bound"
        show ?thesis using run r nb flt False by simp
      next
        fix a' pre post
        assume r: "nearest_loop err la lo m rest best bound = Inr (Some a')"
          and f: "filter (fit m) rest = pre @ a' # post"
          and bb: "below_bound (?D a') bound"
          and p1: "\<forall>b\<in>set pre. ?D a' < ?D b"
          and p2: "\<forall>b\<in>set post. ?D a' \<le> ?D b"
        have lt: "?D a' < ?d" using below_bound_split[OF bb False] .
        have "nearest_loop err la lo m (a # rest) best bound = Inr (Some a') \<and>
            filter (fit m) (a # rest) = (a # pre) @ a' # post \<and>
            below_bound (?D a') bound \<and>
            (\<forall>b\<in>set (a # pre). ?D a' < ?D b) \<and>
            (\<forall>b\<in>set post. ?D a' \<le> ?D b)"
          using run r flt f lt p1 p2 bb by simp
        then show ?thesis by blast
      qed
    qed
  qed
qed

lemma filter_eligible:
  "filter (fit m) (get_available_ambulances db) = filter (eligible m) (ambulances db)"
  by (auto simp: get_available_ambulances_def fit_def eligible_def intro: filter_cong)

lemma find_nearest_ambulance_raises:
  assumes "list_ex (\<lambda>b. \<not> computes err la lo b) (filter (eligible m) (ambulances db))"
  shows "find_nearest_ambulance err db la lo m = Inl ValueError"
proof -
  have "get_available_ambulances db \<noteq> []"
    using assms filter_eligible[of m db] by (cases "get_available_ambulances db") auto
  then show ?thesis
    using assms nearest_loop_raises[of err la lo m "get_available_ambulances db" None None]
    by (simp add: find_nearest_ambulance_def filter_eligible)
qed

lemma find_nearest_ambulance_returns:
  assumes "list_all (computes err la lo) (filter (eligible m) (ambulances db))"
  shows "(filter (eligible m) (ambulances db) = [] \<longrightarrow>
            find_nearest_ambulance err db la lo m = Inr None) \<and>
         (filter (eligible m) (ambulances db) \<noteq> [] \<longrightarrow>
            (\<exists>a pre post.
               find_nearest_ambulance err db la lo m = Inr (Some a) \<and> eligible m a \<and>
               filter (eligible m) (ambulances db) = pre @ a # post \<and>
               (\<forall>b \<in> set pre. computed_distance err la lo a < computed_distance err la lo b) \<and>
               (\<forall>b \<in> set post. computed_distance err la lo a \<le> computed_distance err la lo b)))"
proof (cases "get_available_ambulances db = []")
  case True
  then have "filter (eligible m) (ambulances db) = []"
    using filter_eligible[of m db] by simp
  then show ?thesis using True by (simp add: find_nearest_ambulance_def)
next
  case False
  then have fn: "find_nearest_ambulance err db la lo m =
      nearest_loop err la lo m (get_available_ambulances db) None None"
    by (simp add: find_nearest_ambulance_def)
  have ok: "list_all (computes err la lo) (filter (fit m) (get_available_ambulances db))"
    using assms by (simp add: filter_eligible)
  from nearest_loop_char[OF ok, of None None]
  show ?thesis
  proof (elim disjE conjE exE)
    assume r: "nearest_loop err la lo m (get_available_ambulances db) None None = Inr None"
      and nb: "\<forall>x\<in>set (filter (fit m) (get_available_ambulances db)).
                 \<not> below_bound (computed_distance err la lo x) None"
    have "filter (eligible m) (ambulances db) = []"
      using nb unfolding filter_eligible
      by (cases "filter (eligible m) (ambulances db)") (auto simp: below_bound_def)
    then show ?thesis using fn r by simp
  next
    fix a pre post
    assume r: "nearest_loop err la lo m (get_available_ambulances db) None None = Inr (Some a)"
      and f: "filter (fit m) (get_available_ambulances db) = pre @ a # post"
      and p1: "\<forall>b\<in>set pre. computed_distance err la lo a < computed_distance err la lo b"
      and p2: "\<forall>b\<in>set post. computed_distance err la lo a \<le> computed_distance err la lo b"
    have f': "filter (eligible m) (ambulances db) = pre @ a # post"
      using f unfolding filter_eligible .
    then have "a \<in> set (filter (eligible m) (ambulances db))" by simp
    then have el: "eligible m a" by simp
    show ?thesis using fn r f' el p1 p2 by auto
  qed
qed

lemma computes_exact: "computes exact la lo a"
  by (simp add: computes_def calculate_distance_exact split: option.splits)

lemma computed_distance_exact: "computed_distance exact la lo a = distance_to la lo a"
  by (simp add: computed_distance_def distance_to_def calculate_distance_exact split: option.splits)

lemma find_nearest_ambulance_exact:
  "(filter (eligible m) (ambulances db) = [] \<longrightarrow>
      find_nearest_ambulance exact db la lo m = Inr None) \<and>
   (filter (eligible m) (ambulances db) \<noteq> [] \<longrightarrow>
      (\<exists>a pre post.
         find_nearest_ambulance exact db la lo m = Inr (Some a) \<and> eligible m a \<and>
         filter (eligible m) (ambulances db) = pre @ a # post \<and>
         (\<forall>b \<in> set pre. distance_to la lo a < distance_to la lo b) \<and>
         (\<forall>b \<in> set post. distance_to la lo a \<le> distance_to la lo b)))"
  using find_nearest_ambulance_returns[of exact la lo m db]
  by (simp add: computes_exact computed_distance_exact list_all_iff)

lemma find_nearest_ambulance_none:
  "filter (eligible m) (ambulances db) = [] \<Longrightarrow> find_nearest_ambulance err db la lo m = Inr None"
  using find_nearest_ambulance_returns[of err la lo m db] by simp

lemmas fleet_defs = fleet_db_def amb_low_def amb_near_def amb_tie_def amb_lost_def amb_busy_def
  pat_moving_def pat_waiting_def

lemmas equator_defs = equator_db_def amb_degree_def amb_dry_def amb_tenth_def amb_tenth_too_def

lemma find_nearest_ambulance_fleet_any:
  "find_nearest_ambulance exact fleet_db la lo 20 = Inr (Some amb_near)"
  by (simp add: find_nearest_ambulance_def get_available_ambulances_def fleet_defs below_bound_def
        calculate_distance_exact)

lemma find_nearest_ambulance_equator:
  "find_nearest_ambulance exact equator_db 0 (348 / 10) 20 = Inr (Some amb_tenth) \<and>
   distance_to 0 (348 / 10) amb_degree = 6371 * radians 1 \<and>
   distance_to 0 (348 / 10) amb_tenth = 6371 * radians (1 / 10) \<and>
   distance_to 0 (348 / 10) amb_tenth_too = 6371 * radians (1 / 10) \<and>
   distance_to 0 (348 / 10) amb_dry = 0"
proof -
  have d1: "haversine_km 0 (348 / 10) 0 (358 / 10) = 6371 * radians 1"
    using haversine_km_equator[where ?lon1.0 = "348 / 10" and ?lon2.0 = "358 / 10"] by simp
  have d2: "haversine_km 0 (348 / 10) 0 (349 / 10) = 6371 * radians (1 / 10)"
    using haversine_km_equator[where ?lon1.0 = "348 / 10" and ?lon2.0 = "349 / 10"] by simp
  have lt: "6371 * radians (1 / 10) < 6371 * radians 1"
    by (simp add: radians_def)
  show ?thesis
    using lt
    by (simp add: find_nearest_ambulance_def get_available_ambulances_def equator_defs
          below_bound_def calculate_distance_exact distance_to_def d1[simplified] d2[simplified]
          haversine_km_same)
qed

text \<open>
  C3. The claim is that \<^verbatim>\<open>find_nearest_ambulance\<close> returns \<^verbatim>\<open>None\<close> without raising when no
  ambulance is eligible, and otherwise returns the first eligible ambulance of minimal
  haversine distance. The first half holds for every rounding error
  (\<open>find_nearest_ambulance_none\<close>) and the second in exact arithmetic
  (\<open>find_nearest_ambulance_exact\<close>). In double precision the second half fails: for an
  eligible ambulance stored at the antipode of the hospital at \<open>(-0.2014, 34.8289)\<close> the
  exact \<^verbatim>\<open>a\<close> is 1, the computed \<^verbatim>\<open>a\<close> is one unit in the last place above 1,
  \<^verbatim>\<open>math.sqrt(1-a)\<close> raises \<^verbatim>\<open>ValueError\<close>, nothing catches it, and the search raises
  instead of returning the ambulance.
\<close>

theorem find_nearest_ambulance_antipode:
  "ambulances antipode_db = [amb_antipode] \<and> eligible 20 amb_antipode \<and>
   latitude amb_antipode = Some (2014 / 10000) \<and>
   longitude amb_antipode = Some (- 1451711 / 10000) \<and>
   haversine_a (- 2014 / 10000) (348289 / 10000) (2014 / 10000) (- 1451711 / 10000) = 1 \<and>
   err_at_antipode (- 2014 / 10000) (348289 / 10000) (2014 / 10000) (- 1451711 / 10000)
     = 1 / 2 ^ 52 \<and>
   find_nearest_ambulance err_at_antipode antipode_db (- 2014 / 10000) (348289 / 10000) 20
     = Inl ValueError"
proof -
  have a: "haversine_a (- 2014 / 10000) (348289 / 10000) (2014 / 10000) (- 1451711 / 10000) = 1"
    by (rule haversine_a_antipode) simp_all
  have e: "err_at_antipode (- 2014 / 10000) (348289 / 10000) (2014 / 10000) (- 1451711 / 10000)
             = 1 / 2 ^ 52"
    by (simp add: err_at_antipode_def)
  have "calculate_distance err_at_antipode (- 2014 / 10000) (348289 / 10000)
          (2014 / 10000) (- 1451711 / 10000) = Inl ValueError"
    by (rule calculate_distance_raises) (unfold a e, simp)
  then have r: "find_nearest_ambulance err_at_antipode antipode_db (- 2014 / 10000)
                  (348289 / 10000) 20 = Inl ValueError"
    by (simp add: find_nearest_ambulance_def get_available_ambulances_def antipode_db_def
          amb_antipode_def)
  show ?thesis
    using a e r by (simp add: antipode_db_def amb_antipode_def eligible_def)
qed

section \<open>Reading and writing rows\<close>

lemma find_update_first_same:
  "(\<And>x. P x \<Longrightarrow> P (f x)) \<Longrightarrow> find P (update_first P f xs) = map_option f (find P xs)"
  by (induction xs) auto

lemma find_update_first_other:
  "(\<And>x. P x \<Longrightarrow> \<not> Q x \<and> \<not> Q (f x)) \<Longrightarrow> find Q (update_first P f xs) = find Q xs"
  by (induction xs) auto

lemma get_ambulance_set_ambulance:
  "(\<And>x. ambulance.ambulance_id (f x) = ambulance.ambulance_id x) \<Longrightarrow>
   get_ambulance_by_id (set_ambulance aid f db) aid' =
     (if aid' = aid then map_option f (get_ambulance_by_id db aid) else get_ambulance_by_id db aid')"
  by (auto simp: get_ambulance_by_id_def set_ambulance_def
        intro!: find_update_first_same find_update_first_other)

lemma get_patient_set_patient:
  "(\<And>x. patient.patient_id (f x) = patient.patient_id x) \<Longrightarrow>
   get_patient_by_id (set_patient pid f db) pid' =
     (if pid' = pid then map_option f (get_patient_by_id db pid) else get_patient_by_id db pid')"
  by (auto simp: get_patient_by_id_def set_patient_def
        intro!: find_update_first_same find_update_first_other)

lemma get_ambulance_set_patient [simp]:
  "get_ambulance_by_id (set_patient pid f db) aid = get_ambulance_by_id db aid"
  by (simp add: get_ambulance_by_id_def set_patient_def)

lemma get_patient_set_ambulance [simp]:
  "get_patient_by_id (set_ambulance aid f db) pid = get_patient_by_id db pid"
  by (simp add: get_patient_by_id_def set_ambulance_def)

lemma get_ambulance_add_communication [simp]:
  "get_ambulance_by_id (add_communication db c) aid = get_ambulance_by_id db aid"
  by (simp add: get_ambulance_by_id_def add_communication_def)

lemma get_patient_add_communication [simp]:
  "get_patient_by_id (add_communication db c) pid = get_patient_by_id db pid"
  by (simp add: get_patient_by_id_def add_communication_def)

lemma get_ambulance_arrival [simp]:
  "get_ambulance_by_id (send_automatic_arrival_notification db p a) aid = get_ambulance_by_id db aid"
  by (simp add: send_automatic_arrival_notification_def)

lemma get_patient_arrival [simp]:
  "get_patient_by_id (send_automatic_arrival_notification db p a) pid = get_patient_by_id db pid"
  by (simp add: send_automatic_arrival_notification_def)

section \<open>Claims on the fleet ledger\<close>

text \<open>
  C5. For every ambulance row found under the id and every distance \<open>d\<close>,
  \<^verbatim>\<open>update_ambulance_costs\<close> prices the trip with that ambulance's own
  \<^verbatim>\<open>fuel_consumption_rate\<close>, returns that trip cost, and adds exactly the fuel cost to
  \<^verbatim>\<open>total_fuel_cost\<close>, exactly \<open>d\<close> to \<^verbatim>\<open>total_distance_traveled\<close> and exactly 0.15 times
  the total cost to \<^verbatim>\<open>cost_savings\<close>.
\<close>

theorem update_ambulance_costs_accrues:
  assumes "get_ambulance_by_id db aid = Some a"
  shows "\<exists>db' a'. update_ambulance_costs cfg db aid d
             = (Some (calculate_trip_cost cfg d (Some (fuel_consumption_rate a))), db')
         \<and> get_ambulance_by_id db' aid = Some a'
         \<and> total_fuel_cost a' = total_fuel_cost a
             + fuel_cost_ksh (calculate_trip_cost cfg d (Some (fuel_consumption_rate a)))
         \<and> total_distance_traveled a' = total_distance_traveled a + d
         \<and> cost_savings a' = cost_savings a
             + 15 / 100 * total_cost_ksh (calculate_trip_cost cfg d (Some (fuel_consumption_rate a)))"
  using assms
  by (simp add: update_ambulance_costs_def Let_def get_ambulance_set_ambulance)

theorem update_ambulance_costs_accrues_witness:
  "get_ambulance_by_id fleet_db ''KBB 002B'' = Some amb_near \<and>
   (\<exists>db' a'. update_ambulance_costs Config fleet_db ''KBB 002B'' 10
             = (Some (calculate_trip_cost Config 10 (Some (fuel_consumption_rate amb_near))), db')
         \<and> get_ambulance_by_id db' ''KBB 002B'' = Some a'
         \<and> total_fuel_cost a' = total_fuel_cost amb_near
             + fuel_cost_ksh (calculate_trip_cost Config 10 (Some (fuel_consumption_rate amb_near)))
         \<and> total_distance_traveled a' = total_distance_traveled amb_near + 10
         \<and> cost_savings a' = cost_savings amb_near
             + 15 / 100 * total_cost_ksh (calculate_trip_cost Config 10 (Some (fuel_consumption_rate amb_near))))"
proof -
  have h: "get_ambulance_by_id fleet_db ''KBB 002B'' = Some amb_near"
    by (simp add: get_ambulance_by_id_def fleet_defs)
  show ?thesis using h update_ambulance_costs_accrues[OF h, of Config 10] by simp
qed

lemma update_ambulance_costs_fleet:
  "map_option (\<lambda>a. (total_fuel_cost a, total_distance_traveled a, cost_savings a))
     (get_ambulance_by_id (snd (update_ambulance_costs Config fleet_db ''KBB 002B'' 10)) ''KBB 002B'')
   = Some (6216, 210, 16074 / 10)"
  by (simp add: update_ambulance_costs_def get_ambulance_by_id_def set_ambulance_def fleet_defs
        calculate_trip_cost_def Config_def Let_def)

text \<open>
  C6. The fuel level stays within \<open>[0, 100]\<close>. For every ambulance row found under the
  id whose \<^verbatim>\<open>fuel_level\<close> is in \<open>[0, 100]\<close>, and every distance that is not negative, the
  debit of \<^verbatim>\<open>update_ambulance_fuel\<close> stores \<open>max 0 (fuel_level - distance * rate)\<close>, which
  is again in \<open>[0, 100]\<close>; and the absolute set stores the requested level clamped into
  \<open>[0, 100]\<close>, whatever the row held before. The rate of the row is a consumption in
  litres per km and not negative: the program writes no other value into the column
  than its default 0.12.
\<close>

theorem update_ambulance_fuel_in_range:
  assumes "get_ambulance_by_id db aid = Some a"
  shows "(0 \<le> fuel_level a \<and> fuel_level a \<le> 100 \<and> 0 \<le> d \<and> 0 \<le> fuel_consumption_rate a \<longrightarrow>
          (\<exists>db' a'. update_ambulance_fuel db aid (Some d) lvl
                       = (Some (max 0 (fuel_level a - d * fuel_consumption_rate a)), db')
                   \<and> get_ambulance_by_id db' aid = Some a'
                   \<and> fuel_level a' = max 0 (fuel_level a - d * fuel_consumption_rate a)
                   \<and> 0 \<le> fuel_level a' \<and> fuel_level a' \<le> 100))
       \<and> (\<exists>db' a'. update_ambulance_fuel db aid None (Some n) = (Some (max 0 (min 100 n)), db')
                   \<and> get_ambulance_by_id db' aid = Some a'
                   \<and> fuel_level a' = max 0 (min 100 n)
                   \<and> 0 \<le> fuel_level a' \<and> fuel_level a' \<le> 100)"
proof (intro conjI impI)
  assume h: "0 \<le> fuel_level a \<and> fuel_level a \<le> 100 \<and> 0 \<le> d \<and> 0 \<le> fuel_consumption_rate a"
  then have p: "0 \<le> d * fuel_consumption_rate a" by simp
  have "fuel_level a - d * fuel_consumption_rate a \<le> 100" using h p by linarith
  then show "\<exists>db' a'. update_ambulance_fuel db aid (Some d) lvl
                       = (Some (max 0 (fuel_level a - d * fuel_consumption_rate a)), db')
                   \<and> get_ambulance_by_id db' aid = Some a'
                   \<and> fuel_level a' = max 0 (fuel_level a - d * fuel_consumption_rate a)
                   \<and> 0 \<le> fuel_level a' \<and> fuel_level a' \<le> 100"
    using assms by (simp add: update_ambulance_fuel_def Let_def get_ambulance_set_ambulance)
next
  show "\<exists>db' a'. update_ambulance_fuel db aid None (Some n) = (Some (max 0 (min 100 n)), db')
                   \<and> get_ambulance_by_id db' aid = Some a'
                   \<and> fuel_level a' = max 0 (min 100 n)
                   \<and> 0 \<le> fuel_level a' \<and> fuel_level a' \<le> 100"
    using assms by (simp add: update_ambulance_fuel_def Let_def get_ambulance_set_ambulance)
qed

theorem update_ambulance_fuel_in_range_witness:
  "get_ambulance_by_id fleet_db ''KBB 002B'' = Some amb_near \<and>
   0 \<le> fuel_level amb_near \<and> fuel_level amb_near \<le> 100 \<and> (0::real) \<le> 50 \<and>
   0 \<le> fuel_consumption_rate amb_near \<and>
   (\<exists>db' a'. update_ambulance_fuel fleet_db ''KBB 002B'' (Some 50) None
                       = (Some (max 0 (fuel_level amb_near - 50 * fuel_consumption_rate amb_near)), db')
                   \<and> get_ambulance_by_id db' ''KBB 002B'' = Some a'
                   \<and> fuel_level a' = max 0 (fuel_level amb_near - 50 * fuel_consumption_rate amb_near)
                   \<and> 0 \<le> fuel_level a' \<and> fuel_level a' \<le> 100) \<and>
   (\<exists>db' a'. update_ambulance_fuel fleet_db ''KBB 002B'' None (Some 130) = (Some (max 0 (min 100 130)), db')
                   \<and> get_ambulance_by_id db' ''KBB 002B'' = Some a'
                   \<and> fuel_level a' = max 0 (min 100 130)
                   \<and> 0 \<le> fuel_level a' \<and> fuel_level a' \<le> 100)"
proof -
  have h: "get_ambulance_by_id fleet_db ''KBB 002B'' = Some amb_near"
    by (simp add: get_ambulance_by_id_def fleet_defs)
  have r: "0 \<le> fuel_level amb_near \<and> fuel_level amb_near \<le> 100 \<and> (0::real) \<le> 50 \<and>
           0 \<le> fuel_consumption_rate amb_near"
    by (simp add: amb_near_def)
  show ?thesis
    using h r update_ambulance_fuel_in_range[OF h, of 50 None 130] by blast
qed

section \<open>Claims on the mission lifecycle\<close>

text \<open>
  C1. For every ambulance row and patient row, \<^verbatim>\<open>complete_mission\<close> returns, and
  afterwards the ambulance's \<^verbatim>\<open>status\<close> is \<^verbatim>\<open>Available\<close>, its \<^verbatim>\<open>current_patient\<close> is
  \<^verbatim>\<open>None\<close>, and its \<^verbatim>\<open>total_distance_traveled\<close> has grown by exactly the patient's stored
  \<^verbatim>\<open>trip_distance\<close> (by nothing when the patient stores none).
\<close>

theorem complete_mission_resets_and_accrues:
  assumes "get_ambulance_by_id db aid = Some a" and "get_patient_by_id db pid = Some p"
  shows "\<exists>db' a'. complete_mission cfg db aid pid = Some db'
           \<and> get_ambulance_by_id db' aid = Some a'
           \<and> ambulance.status a' = ''Available''
           \<and> current_patient a' = None
           \<and> total_distance_traveled a' =
               total_distance_traveled a + (case patient.trip_distance p of None \<Rightarrow> 0 | Some d \<Rightarrow> d)"
  using assms
  by (auto simp: complete_mission_def update_ambulance_costs_def Let_def truthy_float_def
        get_ambulance_set_ambulance get_patient_set_patient split: option.splits)

theorem complete_mission_resets_and_accrues_witness:
  "get_ambulance_by_id fleet_db ''KBE 005E'' = Some amb_busy \<and>
   get_patient_by_id fleet_db ''PAT1A2B3C4D'' = Some pat_moving \<and>
   (\<exists>db' a'. complete_mission Config fleet_db ''KBE 005E'' ''PAT1A2B3C4D'' = Some db'
           \<and> get_ambulance_by_id db' ''KBE 005E'' = Some a'
           \<and> ambulance.status a' = ''Available''
           \<and> current_patient a' = None
           \<and> total_distance_traveled a' =
               total_distance_traveled amb_busy
               + (case patient.trip_distance pat_moving of None \<Rightarrow> 0 | Some d \<Rightarrow> d))"
proof -
  have a: "get_ambulance_by_id fleet_db ''KBE 005E'' = Some amb_busy"
    by (simp add: get_ambulance_by_id_def fleet_defs)
  have p: "get_patient_by_id fleet_db ''PAT1A2B3C4D'' = Some pat_moving"
    by (simp add: get_patient_by_id_def fleet_defs)
  show ?thesis
    using a p complete_mission_resets_and_accrues[OF a p, of Config] by blast
qed

section \<open>The assignment invariant under the core operations\<close>

lemma list_all_update_first:
  "list_all Q xs \<Longrightarrow> (\<And>x. Q x \<Longrightarrow> P x \<Longrightarrow> Q (f x)) \<Longrightarrow> list_all Q (update_first P f xs)"
  by (induction xs) auto

lemma fleet_consistent_set_ambulance:
  "fleet_consistent db \<Longrightarrow> (\<And>x. assignment_consistent x \<Longrightarrow> assignment_consistent (f x)) \<Longrightarrow>
   fleet_consistent (set_ambulance aid f db)"
  by (simp add: fleet_consistent_def set_ambulance_def list_all_update_first)

lemma fleet_consistent_set_patient [simp]:
  "fleet_consistent (set_patient pid f db) = fleet_consistent db"
  by (simp add: fleet_consistent_def set_patient_def)

lemma fleet_consistent_add_communication [simp]:
  "fleet_consistent (add_communication db c) = fleet_consistent db"
  by (simp add: fleet_consistent_def add_communication_def)

lemma fleet_consistent_pickup [simp]:
  "fleet_consistent (send_automatic_pickup_notification_to_driver db p a) = fleet_consistent db"
  by (simp add: send_automatic_pickup_notification_to_driver_def)

lemma fleet_consistent_arrival [simp]:
  "fleet_consistent (send_automatic_arrival_notification db p a) = fleet_consistent db"
  by (simp add: send_automatic_arrival_notification_def)

lemma fleet_consistent_update_ambulance_status:
  "fleet_consistent db \<Longrightarrow> pid \<noteq> [] \<Longrightarrow>
   fleet_consistent (update_ambulance_status db aid ''On Transfer'' (Some pid))"
  by (auto simp: update_ambulance_status_def truthy_str_def assignment_consistent_def
        intro!: fleet_consistent_set_ambulance split: option.splits)

lemma stored_patient_id:
  "patient_ids_set db \<Longrightarrow> get_patient_by_id db pid = Some p \<Longrightarrow> pid \<noteq> []"
  by (auto simp: patient_ids_set_def get_patient_by_id_def list_all_iff find_Some_iff)

lemma fleet_consistent_assign_ambulance:
  assumes "fleet_consistent db" and "patient_ids_set db"
  shows "fleet_consistent (snd (assign_ambulance db pid aid))"
proof (cases "get_patient_by_id db pid")
  case None
  then show ?thesis using assms(1) by (simp add: assign_ambulance_def)
next
  case (Some p)
  then have "pid \<noteq> []" using assms(2) by (rule stored_patient_id[rotated])
  then show ?thesis
    using assms(1) Some
    by (auto simp: assign_ambulance_def Let_def
          intro!: fleet_consistent_update_ambulance_status split: option.splits)
qed

lemma fleet_consistent_auto_assign:
  "fleet_consistent db \<Longrightarrow> fleet_consistent (snd (auto_assign_nearest_ambulance err db pid))"
  by (auto simp: auto_assign_nearest_ambulance_def Let_def assignment_consistent_def
        intro!: fleet_consistent_set_ambulance split: option.splits sum.splits)

lemma fleet_consistent_update_ambulance_costs:
  "fleet_consistent db \<Longrightarrow> fleet_consistent (snd (update_ambulance_costs cfg db aid d))"
  by (auto simp: update_ambulance_costs_def Let_def assignment_consistent_def
        intro!: fleet_consistent_set_ambulance split: option.splits)

lemma fleet_consistent_complete_mission:
  assumes "fleet_consistent db" and "complete_mission cfg db aid pid = Some db'"
  shows "fleet_consistent db'"
proof -
  let ?upda = "\<lambda>a. a\<lparr>ambulance.status := ''Available'', current_patient := None,
                       mission_complete := True\<rparr>"
  let ?db1 = "set_patient pid (\<lambda>p. p\<lparr>patient.status := ''Arrived at Destination''\<rparr>)
                (set_ambulance aid ?upda db)"
  have c1: "fleet_consistent ?db1"
    using assms(1) by (auto simp: assignment_consistent_def intro!: fleet_consistent_set_ambulance)
  have c2: "fleet_consistent dbx" if "update_ambulance_costs cfg ?db1 aid d = (tc, dbx)" for d tc dbx
    using fleet_consistent_update_ambulance_costs[OF c1, of cfg aid d] that by simp
  show ?thesis
    using assms(2) c1 c2
    by (auto simp: complete_mission_def Let_def split: option.splits if_splits prod.splits)
qed


lemma nearest_loop_member:
  "nearest_loop err la lo m xs best bound = Inr (Some a) \<Longrightarrow> best = Some a \<or> a \<in> set xs"
  by (induction xs arbitrary: best bound)
    (auto simp: Let_def split: if_splits option.splits sum.splits)

lemma find_nearest_ambulance_member:
  "find_nearest_ambulance err db la lo m = Inr (Some a) \<Longrightarrow> a \<in> set (ambulances db)"
  by (auto simp: find_nearest_ambulance_def get_available_ambulances_def Let_def
        split: if_splits dest: nearest_loop_member)

lemma get_ambulance_by_id_member:
  "a \<in> set (ambulances db) \<Longrightarrow> get_ambulance_by_id db (ambulance.ambulance_id a) \<noteq> None"
  by (auto simp: get_ambulance_by_id_def find_None_iff)

lemma get_ambulance_by_id_set:
  "get_ambulance_by_id db aid = Some a \<Longrightarrow> a \<in> set (ambulances db)"
  by (auto simp: get_ambulance_by_id_def find_Some_iff)

lemma assign_ambulance_sets_both:
  assumes "patient_ids_set db" and "get_patient_by_id db pid \<noteq> None"
    and "get_ambulance_by_id db aid \<noteq> None"
  shows "\<exists>a'. get_ambulance_by_id (snd (assign_ambulance db pid aid)) aid = Some a' \<and>
           ambulance.status a' = ''On Transfer'' \<and> current_patient a' = Some pid"
  using assms stored_patient_id[of db pid]
  by (auto simp: assign_ambulance_def update_ambulance_status_def Let_def truthy_str_def
        send_automatic_pickup_notification_to_driver_def get_ambulance_set_ambulance
        split: option.splits)

lemma auto_assign_sets_both:
  assumes "fst (auto_assign_nearest_ambulance err db pid) = Inr True"
  shows "\<exists>a' \<in> set (ambulances (snd (auto_assign_nearest_ambulance err db pid))).
           ambulance.status a' = ''On Transfer'' \<and> current_patient a' = Some pid"
proof -
  from assms obtain p0 a0 where
    p0: "get_patient_by_id db pid = Some p0" and
    t: "truthy_float (patient.referring_hospital_lat p0)" "truthy_float (patient.referring_hospital_lng p0)" and
    a0: "find_nearest_ambulance err db (the (patient.referring_hospital_lat p0))
           (the (patient.referring_hospital_lng p0)) default_min_fuel_level = Inr (Some a0)"
    by (auto simp: auto_assign_nearest_ambulance_def Let_def
          split: option.splits if_splits sum.splits)
  let ?upda = "\<lambda>a. a\<lparr>ambulance.status := ''On Transfer'', current_patient := Some pid,
                       destination := Some (patient.receiving_hospital p0)\<rparr>"
  let ?db' = "snd (auto_assign_nearest_ambulance err db pid)"
  have "get_ambulance_by_id db (ambulance.ambulance_id a0) \<noteq> None"
    using find_nearest_ambulance_member[OF a0] by (rule get_ambulance_by_id_member)
  then obtain x where x: "get_ambulance_by_id db (ambulance.ambulance_id a0) = Some x" by auto
  have "get_ambulance_by_id ?db' (ambulance.ambulance_id a0) = Some (?upda x)"
    using p0 t a0 x
    by (simp add: auto_assign_nearest_ambulance_def Let_def
          send_automatic_pickup_notification_to_driver_def get_ambulance_set_ambulance)
  then have "?upda x \<in> set (ambulances ?db')" by (rule get_ambulance_by_id_set)
  then show ?thesis by force
qed

lemma complete_mission_clears_both:
  assumes "complete_mission cfg db aid pid = Some db'"
  shows "\<exists>a'. get_ambulance_by_id db' aid = Some a' \<and>
           ambulance.status a' = ''Available'' \<and> current_patient a' = None"
  using assms
  by (auto simp: complete_mission_def update_ambulance_costs_def Let_def truthy_float_def
        get_ambulance_set_ambulance get_patient_set_patient split: option.splits if_splits)

text \<open>
  C8. If on every ambulance row \<^verbatim>\<open>current_patient\<close> is set exactly when \<^verbatim>\<open>status\<close> is
  \<^verbatim>\<open>On Transfer\<close>, then the same holds after \<^verbatim>\<open>assign_ambulance\<close>, after
  \<^verbatim>\<open>auto_assign_nearest_ambulance\<close> (for every rounding error, also when the search
  raises) and after \<^verbatim>\<open>complete_mission\<close>, for every patient id and ambulance id. An
  assignment that finds its patient and its ambulance leaves the ambulance
  \<^verbatim>\<open>On Transfer\<close> with \<^verbatim>\<open>current_patient\<close> the patient's id, an automatic assignment that
  returns \<^verbatim>\<open>True\<close> leaves some ambulance so, and completion leaves the ambulance
  \<^verbatim>\<open>Available\<close> with \<^verbatim>\<open>current_patient\<close> cleared. The store is one the program writes:
  no patient row is stored under the empty string.
\<close>

theorem core_operations_keep_assignment_invariant:
  assumes "fleet_consistent db" and "patient_ids_set db"
  shows "fleet_consistent (snd (assign_ambulance db pid aid))
       \<and> (get_patient_by_id db pid \<noteq> None \<and> get_ambulance_by_id db aid \<noteq> None \<longrightarrow>
            (\<exists>a'. get_ambulance_by_id (snd (assign_ambulance db pid aid)) aid = Some a' \<and>
                  ambulance.status a' = ''On Transfer'' \<and> current_patient a' = Some pid))
       \<and> fleet_consistent (snd (auto_assign_nearest_ambulance err db pid))
       \<and> (fst (auto_assign_nearest_ambulance err db pid) = Inr True \<longrightarrow>
            (\<exists>a' \<in> set (ambulances (snd (auto_assign_nearest_ambulance err db pid))).
                  ambulance.status a' = ''On Transfer'' \<and> current_patient a' = Some pid))
       \<and> (\<forall>db'. complete_mission cfg db aid pid = Some db' \<longrightarrow>
            fleet_consistent db' \<and>
            (\<exists>a'. get_ambulance_by_id db' aid = Some a' \<and>
                  ambulance.status a' = ''Available'' \<and> current_patient a' = None))"
  using assms fleet_consistent_assign_ambulance[of db pid aid]
    assign_ambulance_sets_both[of db pid aid]
    fleet_consistent_auto_assign[of db err pid] auto_assign_sets_both[of err db pid]
    fleet_consistent_complete_mission[of db cfg aid pid]
    complete_mission_clears_both[of cfg db aid pid]
  by blast

lemma auto_assign_fleet:
  "fst (auto_assign_nearest_ambulance exact fleet_db ''PAT5E6F7A8B'') = Inr True"
proof -
  have p: "get_patient_by_id fleet_db ''PAT5E6F7A8B'' = Some pat_waiting"
    by (simp add: get_patient_by_id_def fleet_defs)
  have t: "truthy_float (patient.referring_hospital_lat pat_waiting)"
    "truthy_float (patient.referring_hospital_lng pat_waiting)"
    by (simp_all add: truthy_float_def pat_waiting_def)
  show ?thesis
    by (simp add: auto_assign_nearest_ambulance_def p t default_min_fuel_level_def
          find_nearest_ambulance_fleet_any Let_def)
qed

theorem core_operations_keep_assignment_invariant_witness:
  "fleet_consistent fleet_db \<and> patient_ids_set fleet_db \<and>
   get_patient_by_id fleet_db ''PAT5E6F7A8B'' \<noteq> None \<and>
   get_ambulance_by_id fleet_db ''KBB 002B'' \<noteq> None \<and>
   fleet_consistent (snd (assign_ambulance fleet_db ''PAT5E6F7A8B'' ''KBB 002B'')) \<and>
   (\<exists>a'. get_ambulance_by_id (snd (assign_ambulance fleet_db ''PAT5E6F7A8B'' ''KBB 002B''))
            ''KBB 002B'' = Some a' \<and>
          ambulance.status a' = ''On Transfer'' \<and> current_patient a' = Some ''PAT5E6F7A8B'') \<and>
   fst (auto_assign_nearest_ambulance exact fleet_db ''PAT5E6F7A8B'') = Inr True \<and>
   fleet_consistent (snd (auto_assign_nearest_ambulance exact fleet_db ''PAT5E6F7A8B'')) \<and>
   (\<exists>a'. a' \<in> set (ambulances (snd (auto_assign_nearest_ambulance exact fleet_db ''PAT5E6F7A8B''))) \<and>
          ambulance.status a' = ''On Transfer'' \<and> current_patient a' = Some ''PAT5E6F7A8B'') \<and>
   (\<exists>db'. complete_mission Config fleet_db ''KBE 005E'' ''PAT1A2B3C4D'' = Some db' \<and>
      fleet_consistent db' \<and>
      (\<exists>a'. get_ambulance_by_id db' ''KBE 005E'' = Some a' \<and>
             ambulance.status a' = ''Available'' \<and> current_patient a' = None))"
proof -
  have c: "fleet_consistent fleet_db"
    by (simp add: fleet_consistent_def assignment_consistent_def fleet_defs)
  have n: "patient_ids_set fleet_db"
    by (simp add: patient_ids_set_def fleet_defs)
  have p: "get_patient_by_id fleet_db ''PAT5E6F7A8B'' \<noteq> None"
    by (simp add: get_patient_by_id_def fleet_defs)
  have a: "get_ambulance_by_id fleet_db ''KBB 002B'' \<noteq> None"
    by (simp add: get_ambulance_by_id_def fleet_defs)
  have r: "complete_mission Config fleet_db ''KBE 005E'' ''PAT1A2B3C4D'' \<noteq> None"
    by (simp add: complete_mission_def get_ambulance_by_id_def get_patient_by_id_def
          set_ambulance_def set_patient_def update_ambulance_costs_def truthy_float_def
          fleet_defs Let_def)
  then obtain db' where d: "complete_mission Config fleet_db ''KBE 005E'' ''PAT1A2B3C4D'' = Some db'"
    by auto
  show ?thesis
    using c n p a d auto_assign_fleet
      core_operations_keep_assignment_invariant[OF c n, of "''PAT5E6F7A8B''" "''KBB 002B''" exact Config]
      core_operations_keep_assignment_invariant[OF c n, of "''PAT1A2B3C4D''" "''KBE 005E''" exact Config]
    by (simp add: Bex_def)
qed

section \<open>Transitions given an id that resolves to no row\<close>

text \<open>Three of the four cases report failure and change nothing: \<^verbatim>\<open>assign_ambulance\<close> with
  an unknown patient, and \<^verbatim>\<open>mark_patient_picked_up\<close> with an unknown patient or with a
  patient whose assigned ambulance is unknown or not set.\<close>

lemma assign_ambulance_unknown_patient:
  "get_patient_by_id db pid = None \<Longrightarrow> assign_ambulance db pid aid = (False, db)"
  by (simp add: assign_ambulance_def)

lemma mark_patient_picked_up_unknown_patient:
  "get_patient_by_id db pid = None \<Longrightarrow> mark_patient_picked_up db pid = (False, db)"
  by (simp add: mark_patient_picked_up_def)

lemma mark_patient_picked_up_unknown_ambulance:
  "get_patient_by_id db pid = Some p \<Longrightarrow>
   (case patient.assigned_ambulance p of None \<Rightarrow> None | Some aid \<Rightarrow> get_ambulance_by_id db aid) = None \<Longrightarrow>
   mark_patient_picked_up db pid = (False, db)"
  by (simp add: mark_patient_picked_up_def)

text \<open>
  C2. The claim is that every lifecycle transition given an id that resolves to no row
  returns \<^verbatim>\<open>False\<close> and changes no patient or ambulance row. \<^verbatim>\<open>assign_ambulance\<close> with a
  known patient and an ambulance id that no row carries does otherwise: it commits the
  patient row with \<^verbatim>\<open>status\<close> \<^verbatim>\<open>Ambulance Assigned\<close> and the dangling id as
  \<^verbatim>\<open>assigned_ambulance\<close> before it looks the ambulance up, and returns \<^verbatim>\<open>True\<close>.
\<close>

theorem assign_ambulance_unknown_ambulance:
  "get_patient_by_id fleet_db ''PAT5E6F7A8B'' = Some pat_waiting \<and>
   get_ambulance_by_id fleet_db ''KZZ 999Z'' = None \<and>
   fst (assign_ambulance fleet_db ''PAT5E6F7A8B'' ''KZZ 999Z'') = True \<and>
   get_patient_by_id (snd (assign_ambulance fleet_db ''PAT5E6F7A8B'' ''KZZ 999Z'')) ''PAT5E6F7A8B''
     = Some (pat_waiting\<lparr>patient.assigned_ambulance := Some ''KZZ 999Z'',
                          patient.status := ''Ambulance Assigned''\<rparr>) \<and>
   patient.status pat_waiting = ''Referred'' \<and>
   patient.assigned_ambulance pat_waiting = None"
  by (simp add: assign_ambulance_def update_ambulance_status_def
        get_patient_by_id_def get_ambulance_by_id_def set_patient_def fleet_defs Let_def)

section \<open>Referral creation\<close>

lemma estimate_trip_keeps:
  assumes "estimate_trip err cfg pd = Inr pd'"
  shows "patient_data.name pd' = patient_data.name pd"
    "patient_data.age pd' = patient_data.age pd"
    "patient_data.condition pd' = patient_data.condition pd"
    "patient_data.referring_hospital pd' = patient_data.referring_hospital pd"
    "patient_data.receiving_hospital pd' = patient_data.receiving_hospital pd"
    "patient_data.referring_physician pd' = patient_data.referring_physician pd"
    "patient_data.patient_id pd' = patient_data.patient_id pd"
  using assms
  by (auto simp: estimate_trip_def Let_def split: if_splits sum.splits)

lemma find_append_fresh:
  "(\<And>x. x \<in> set xs \<Longrightarrow> \<not> P x) \<Longrightarrow> P y \<Longrightarrow> find P (xs @ [y]) = Some y"
  by (induction xs) auto

lemma add_patient_succeeds:
  assumes "required_fields_present pd" and "new_patient_id pd token \<notin> set (map patient.patient_id (patients db))"
  shows "\<exists>p db'. add_patient db pd token = Inr (p, db') \<and>
           patient.patient_id p = new_patient_id pd token \<and>
           patient.trip_distance p = patient_data.trip_distance pd \<and>
           patient.trip_fuel_cost p = patient_data.trip_fuel_cost pd \<and>
           patients db' = patients db @ [p]"
  using assms
  by (auto simp: add_patient_def required_fields_present_def new_patient_id_def Let_def
        split: option.splits)

lemma create_referral_succeeds:
  assumes "required_fields_present pd"
    and "new_patient_id pd token \<notin> set (map patient.patient_id (patients db))"
    and "estimate_trip err cfg (pd\<lparr>patient_data.created_by := Some role\<rparr>) = Inr pd'"
  shows "\<exists>p db'. create_referral err cfg db pd role token = (Some p, db') \<and>
           patient.trip_distance p = patient_data.trip_distance pd' \<and>
           patient.trip_fuel_cost p = patient_data.trip_fuel_cost pd' \<and>
           get_patient_by_id db' (new_patient_id pd token) = Some p"
proof -
  have r: "required_fields_present pd'"
    using assms(1) estimate_trip_keeps[OF assms(3)] by (simp add: required_fields_present_def)
  have i: "new_patient_id pd' token = new_patient_id pd token"
    using estimate_trip_keeps[OF assms(3)] by (simp add: new_patient_id_def)
  from add_patient_succeeds[OF r, of token db] assms(2) i
  obtain p db1 where a: "add_patient db pd' token = Inr (p, db1)"
    and pi: "patient.patient_id p = new_patient_id pd token"
    and td: "patient.trip_distance p = patient_data.trip_distance pd'"
    and tf: "patient.trip_fuel_cost p = patient_data.trip_fuel_cost pd'"
    and ps: "patients db1 = patients db @ [p]"
    by auto
  have "find (\<lambda>q. patient.patient_id q = new_patient_id pd token) (patients db @ [p]) = Some p"
    using assms(2) pi by (intro find_append_fresh) force+
  then show ?thesis
    using a td tf ps assms(3)
    by (simp add: create_referral_def Let_def get_patient_by_id_def add_referral_def
          send_automatic_referral_notification_to_hospital_def add_communication_def)
qed

text \<open>With a coordinate absent the patient is created, for every rounding error, and the
  two fields are left as the dictionary had them.\<close>

lemma create_referral_without_coordinates:
  assumes "required_fields_present pd"
    and "new_patient_id pd token \<notin> set (map patient.patient_id (patients db))"
    and "patient_data.referring_hospital_lat pd = None \<or> patient_data.referring_hospital_lng pd = None \<or>
         patient_data.receiving_hospital_lat pd = None \<or> patient_data.receiving_hospital_lng pd = None"
  shows "\<exists>p db'. create_referral err cfg db pd role token = (Some p, db') \<and>
           patient.trip_distance p = patient_data.trip_distance pd \<and>
           patient.trip_fuel_cost p = patient_data.trip_fuel_cost pd"
proof -
  have "estimate_trip err cfg (pd\<lparr>patient_data.created_by := Some role\<rparr>)
          = Inr (pd\<lparr>patient_data.created_by := Some role\<rparr>)"
    using assms(3) by (auto simp: estimate_trip_def truthy_float_def)
  from create_referral_succeeds[OF assms(1,2) this] show ?thesis by auto
qed

text \<open>With four coordinates that are present and not zero, and a distance that
  \<^verbatim>\<open>calculate_distance\<close> returns, the distance and the total cost are stored; in exact
  arithmetic the distance is the haversine distance.\<close>

lemma create_referral_with_coordinates:
  assumes "required_fields_present pd"
    and "new_patient_id pd token \<notin> set (map patient.patient_id (patients db))"
    and "patient_data.referring_hospital_lat pd = Some la1" "la1 \<noteq> 0"
    and "patient_data.referring_hospital_lng pd = Some lo1" "lo1 \<noteq> 0"
    and "patient_data.receiving_hospital_lat pd = Some la2" "la2 \<noteq> 0"
    and "patient_data.receiving_hospital_lng pd = Some lo2" "lo2 \<noteq> 0"
    and "calculate_distance err la1 lo1 la2 lo2 = Inr d"
  shows "\<exists>p db'. create_referral err cfg db pd role token = (Some p, db') \<and>
           patient.trip_distance p = Some d \<and>
           patient.trip_fuel_cost p = Some (total_cost_ksh (calculate_trip_cost cfg d None))"
proof -
  let ?pd = "pd\<lparr>patient_data.created_by := Some role\<rparr>"
  have "estimate_trip err cfg ?pd =
          Inr (?pd\<lparr>patient_data.trip_distance := Some d,
                    patient_data.trip_fuel_cost := Some (total_cost_ksh (calculate_trip_cost cfg d None))\<rparr>)"
    using assms(3-) by (simp add: estimate_trip_def truthy_float_def Let_def)
  from create_referral_succeeds[OF assms(1,2) this] show ?thesis by auto
qed

lemma create_referral_with_coordinates_exact:
  assumes "required_fields_present pd"
    and "new_patient_id pd token \<notin> set (map patient.patient_id (patients db))"
    and "patient_data.referring_hospital_lat pd = Some la1" "la1 \<noteq> 0"
    and "patient_data.referring_hospital_lng pd = Some lo1" "lo1 \<noteq> 0"
    and "patient_data.receiving_hospital_lat pd = Some la2" "la2 \<noteq> 0"
    and "patient_data.receiving_hospital_lng pd = Some lo2" "lo2 \<noteq> 0"
  shows "\<exists>p db'. create_referral exact cfg db pd role token = (Some p, db') \<and>
           patient.trip_distance p = Some (haversine_km la1 lo1 la2 lo2) \<and>
           patient.trip_fuel_cost p =
             Some (total_cost_ksh (calculate_trip_cost cfg (haversine_km la1 lo1 la2 lo2) None))"
  using create_referral_with_coordinates[OF assms calculate_distance_exact] .

text \<open>A \<^verbatim>\<open>ValueError\<close> of the distance is caught by the \<^verbatim>\<open>except\<close> clause: no patient is
  created.\<close>

lemma create_referral_domain_error:
  assumes "patient_data.referring_hospital_lat pd = Some la1" "la1 \<noteq> 0"
    and "patient_data.referring_hospital_lng pd = Some lo1" "lo1 \<noteq> 0"
    and "patient_data.receiving_hospital_lat pd = Some la2" "la2 \<noteq> 0"
    and "patient_data.receiving_hospital_lng pd = Some lo2" "lo2 \<noteq> 0"
    and "calculate_distance err la1 lo1 la2 lo2 = Inl e"
  shows "create_referral err cfg db pd role token = (None, db)"
  using assms by (simp add: create_referral_def estimate_trip_def truthy_float_def)

lemmas pd_defs = pd_located_def pd_equator_def pd_unlocated_def

lemma create_referral_unlocated:
  "fst (create_referral err Config empty_db pd_unlocated ''Hospital Staff'' ''0A1B2C3D'') \<noteq> None \<and>
   map_option patient.patient_id
     (fst (create_referral err Config empty_db pd_unlocated ''Hospital Staff'' ''0A1B2C3D''))
     = Some ''PAT0A1B2C3D'' \<and>
   map_option patient.trip_distance
     (fst (create_referral err Config empty_db pd_unlocated ''Hospital Staff'' ''0A1B2C3D'')) = Some None \<and>
   map_option patient.trip_fuel_cost
     (fst (create_referral err Config empty_db pd_unlocated ''Hospital Staff'' ''0A1B2C3D'')) = Some None"
  by (simp add: create_referral_def estimate_trip_def add_patient_def truthy_float_def
        pd_defs empty_db_def Let_def)

text \<open>
  C7. The claim is that \<^verbatim>\<open>create_referral\<close> still creates the patient when a hospital
  coordinate is absent, leaving distance and cost unset, and that it computes and
  stores distance and cost when the coordinates of both hospitals are known. The
  first half holds (\<open>create_referral_without_coordinates\<close>). The second half holds when
  no coordinate is \<^verbatim>\<open>0.0\<close> and the distance is computed
  (\<open>create_referral_with_coordinates\<close>) and fails otherwise: the four coordinates are
  tested by truth value, so for a referring hospital at latitude \<^verbatim>\<open>0.0\<close> the patient is
  created with \<^verbatim>\<open>trip_distance\<close> and \<^verbatim>\<open>trip_fuel_cost\<close> unset although all four coordinates
  are present.
\<close>

theorem create_referral_equator:
  "required_fields_present pd_equator \<and>
   patient_data.referring_hospital_lat pd_equator = Some 0 \<and>
   patient_data.referring_hospital_lng pd_equator = Some (346 / 10) \<and>
   patient_data.receiving_hospital_lat pd_equator = Some (-916 / 10000) \<and>
   patient_data.receiving_hospital_lng pd_equator = Some (34768 / 1000) \<and>
   fst (create_referral err Config empty_db pd_equator ''Hospital Staff'' ''0A1B2C3D'') \<noteq> None \<and>
   map_option patient.trip_distance
     (fst (create_referral err Config empty_db pd_equator ''Hospital Staff'' ''0A1B2C3D'')) = Some None \<and>
   map_option patient.trip_fuel_cost
     (fst (create_referral err Config empty_db pd_equator ''Hospital Staff'' ''0A1B2C3D'')) = Some None"
  by (simp add: create_referral_def estimate_trip_def add_patient_def truthy_float_def
        required_fields_present_def pd_defs empty_db_def Let_def)

section \<open>The cost stored on the patient\<close>

text \<open>What holds of the stored cost. A patient that \<^verbatim>\<open>create_referral\<close> returns with a
  stored \<^verbatim>\<open>trip_distance\<close>, from a dictionary that carried none, has \<^verbatim>\<open>trip_fuel_cost\<close> equal
  to fuel cost plus operating cost of that distance at the fleet-average rate. For a
  patient with a stored \<^verbatim>\<open>trip_distance\<close> that is not zero, \<^verbatim>\<open>complete_mission\<close> assigns
  fuel cost plus operating cost of it at the ambulance's own rate; a stored \<^verbatim>\<open>0.0\<close>
  fails the test \<^verbatim>\<open>if patient.trip_distance:\<close> and the field is left as it was.\<close>

lemma estimate_trip_total:
  "estimate_trip err cfg pd = Inr pd' \<Longrightarrow>
   patient_data.trip_distance pd = None \<Longrightarrow>
   patient_data.trip_distance pd' = Some d \<Longrightarrow>
   patient_data.trip_fuel_cost pd'
     = Some (fuel_cost_ksh (calculate_trip_cost cfg d None)
             + operating_cost_ksh (calculate_trip_cost cfg d None))"
  by (auto simp: estimate_trip_def calculate_trip_cost_def Let_def split: if_splits sum.splits)

lemma add_patient_copies:
  "add_patient db pd token = Inr (p, db') \<Longrightarrow>
   patient.trip_distance p = patient_data.trip_distance pd \<and>
   patient.trip_fuel_cost p = patient_data.trip_fuel_cost pd"
  by (auto simp: add_patient_def Let_def split: option.splits if_splits)

lemma create_referral_total:
  assumes "create_referral err cfg db pd role token = (Some p, db')"
    and "patient_data.trip_distance pd = None"
    and "patient.trip_distance p = Some d"
  shows "patient.trip_fuel_cost p
           = Some (fuel_cost_ksh (calculate_trip_cost cfg d None)
                   + operating_cost_ksh (calculate_trip_cost cfg d None))"
proof -
  from assms(1) obtain pd' db1 where
    e: "estimate_trip err cfg (pd\<lparr>patient_data.created_by := Some role\<rparr>) = Inr pd'"
    and a: "add_patient db pd' token = Inr (p, db1)"
    by (auto simp: create_referral_def Let_def split: sum.splits)
  have c: "patient.trip_distance p = patient_data.trip_distance pd'"
    "patient.trip_fuel_cost p = patient_data.trip_fuel_cost pd'"
    using add_patient_copies[OF a] by blast+
  have "patient_data.trip_distance (pd\<lparr>patient_data.created_by := Some role\<rparr>) = None"
    using assms(2) by simp
  from estimate_trip_total[OF e this, of d] c assms(3) show ?thesis by simp
qed

lemma complete_mission_total:
  assumes "get_ambulance_by_id db aid = Some a" and "get_patient_by_id db pid = Some q"
    and "patient.trip_distance q = Some e"
  shows "\<exists>db' q'. complete_mission cfg db aid pid = Some db' \<and>
           get_patient_by_id db' pid = Some q' \<and>
           patient.trip_distance q' = Some e \<and>
           (e \<noteq> 0 \<longrightarrow> patient.trip_fuel_cost q' =
              Some (fuel_cost_ksh (calculate_trip_cost cfg e (Some (fuel_consumption_rate a)))
                    + operating_cost_ksh (calculate_trip_cost cfg e (Some (fuel_consumption_rate a))))) \<and>
           (e = 0 \<longrightarrow> patient.trip_fuel_cost q' = patient.trip_fuel_cost q)"
  using assms
  by (auto simp: complete_mission_def update_ambulance_costs_def Let_def truthy_float_def
        calculate_trip_cost_def get_ambulance_set_ambulance get_patient_set_patient
        split: option.splits)

text \<open>
  C10. The claim is that at referral creation, when the coordinates are known, and at
  mission completion the patient's \<^verbatim>\<open>trip_fuel_cost\<close> is assigned the total cost of the
  trip, so that it equals fuel cost plus operating cost of the stored \<^verbatim>\<open>trip_distance\<close>.
  The value assigned is the total cost wherever one is assigned. But
  \<^verbatim>\<open>create_referral\<close> tests the four coordinates by truth value: for a referring hospital
  at latitude \<^verbatim>\<open>0.0\<close>, with all four coordinates present, the patient is created and
  \<^verbatim>\<open>trip_fuel_cost\<close> is assigned nothing.
\<close>

theorem create_referral_equator_cost:
  "patient_data.referring_hospital_lat pd_equator \<noteq> None \<and>
   patient_data.referring_hospital_lng pd_equator \<noteq> None \<and>
   patient_data.receiving_hospital_lat pd_equator \<noteq> None \<and>
   patient_data.receiving_hospital_lng pd_equator \<noteq> None \<and>
   patient_data.trip_fuel_cost pd_equator = None \<and>
   map_option patient.patient_id
     (fst (create_referral err Config fleet_db pd_equator ''Hospital Staff'' ''9F8E7D6C''))
     = Some ''PAT9F8E7D6C'' \<and>
   map_option patient.trip_fuel_cost
     (fst (create_referral err Config fleet_db pd_equator ''Hospital Staff'' ''9F8E7D6C''))
     = Some None \<and>
   map_option patient.trip_fuel_cost
     (get_patient_by_id
        (snd (create_referral err Config fleet_db pd_equator ''Hospital Staff'' ''9F8E7D6C''))
        ''PAT9F8E7D6C'')
     = Some None"
  by (simp add: create_referral_def estimate_trip_def add_patient_def truthy_float_def
        get_patient_by_id_def add_referral_def
        send_automatic_referral_notification_to_hospital_def add_communication_def
        pd_defs fleet_defs Let_def)

lemma complete_mission_fleet_cost:
  "map_option (\<lambda>q. (patient.trip_fuel_cost q, trip_cost_savings q))
     (case complete_mission Config fleet_db ''KBE 005E'' ''PAT1A2B3C4D'' of
        None \<Rightarrow> None | Some db' \<Rightarrow> get_patient_by_id db' ''PAT1A2B3C4D'')
   = Some (Some (2864 / 10), 4296 / 100) \<and>
   fuel_cost_ksh (calculate_trip_cost Config 4 (Some (12 / 100))) = 864 / 10"
  by (simp add: complete_mission_def get_ambulance_by_id_def get_patient_by_id_def
        set_ambulance_def set_patient_def update_ambulance_costs_def truthy_float_def
        send_automatic_arrival_notification_def add_communication_def
        calculate_trip_cost_def Config_def fleet_defs Let_def)

end
